theory Spec2Isabelle
  imports Main "HOL-Library.Word" "HOL-Library.AList"
begin

section \<open>Binlog event decoding of \<^verbatim>\<open>pymysqlreplication/event.py\<close>\<close>

text \<open>
  The module decodes one MySQL replication event from a packet cursor and projects the
  decoded event to a dictionary (\<^verbatim>\<open>dump\<close>).  The embedding keeps Python's effects
  explicit: every constructor and method is a function from the world (the packet cursor
  and the store of dictionary objects) to a result or an exception, together with the
  world it leaves behind.
\<close>

subsection \<open>Values, dictionary objects and exceptions\<close>

type_synonym byte = "8 word"
type_synonym bytes = "byte list"

text \<open>A dictionary is an object with identity: values refer to it by address.\<close>

type_synonym addr = nat

text \<open>
  Objects this module stores but never inspects (the table map, the control connection,
  keyword-argument values) are opaque handles.
\<close>

type_synonym obj = nat

datatype pyval =
    PyNone
  | PyBool bool
  | PyInt int
  | PyBytes bytes
  | PyText string
  | PyRef addr

text \<open>
  \<open>PyText\<close> is a decoded text string, kept as the characters of its UTF-8 encoding;
  \<open>PyBytes\<close> is a raw byte sequence; \<open>PyRef a\<close> refers to the dictionary object at
  address \<open>a\<close>.  A dictionary keeps its keys in insertion order; item assignment is
  \<^const>\<open>AList.update\<close>.
\<close>

type_synonym dict = "(string \<times> pyval) list"
type_synonym store = "dict list"

text \<open>
  The exceptions of the model.  \<open>MalformedPayload\<close> is the error kind the
  specification names; no statement of the module constructs it.
\<close>

datatype error =
    MalformedPayload
  | PacketError
  | KeyError string
  | TypeError
  | UnicodeDecodeError
  | StructError
  | AttributeError
  | ValueError
  | RecursionError

subsection \<open>Text decoding\<close>

text \<open>
  \<^verbatim>\<open>.decode()\<close> without an argument uses the interpreter's default codec, which the
  development takes as a parameter; \<^verbatim>\<open>.decode("utf-8")\<close> names its codec.
\<close>

datatype codec = Ascii | Utf8

definition is_cont :: "byte \<Rightarrow> bool" where
  "is_cont b = (0x80 \<le> b \<and> b \<le> 0xBF)"

fun valid_utf8 :: "bytes \<Rightarrow> bool" where
  "valid_utf8 [] = True"
| "valid_utf8 (b # bs) =
     (if b \<le> 0x7F then valid_utf8 bs
      else if 0xC2 \<le> b \<and> b \<le> 0xDF then
        (case bs of c # r \<Rightarrow> is_cont c \<and> valid_utf8 r | _ \<Rightarrow> False)
      else if 0xE0 \<le> b \<and> b \<le> 0xEF then
        (case bs of c # d # r \<Rightarrow>
           is_cont c \<and> is_cont d \<and> (b = 0xE0 \<longrightarrow> 0xA0 \<le> c) \<and> (b = 0xED \<longrightarrow> c \<le> 0x9F)
           \<and> valid_utf8 r
         | _ \<Rightarrow> False)
      else if 0xF0 \<le> b \<and> b \<le> 0xF4 then
        (case bs of c # d # e # r \<Rightarrow>
           is_cont c \<and> is_cont d \<and> is_cont e \<and> (b = 0xF0 \<longrightarrow> 0x90 \<le> c)
           \<and> (b = 0xF4 \<longrightarrow> c \<le> 0x8F) \<and> valid_utf8 r
         | _ \<Rightarrow> False)
      else False)"

definition byte_char :: "byte \<Rightarrow> char" where
  "byte_char b = char_of (unat b)"

definition decode :: "codec \<Rightarrow> bytes \<Rightarrow> error + string" where
  "decode enc bs =
     (case enc of
        Ascii \<Rightarrow> if list_all (\<lambda>b. b \<le> 0x7F) bs then Inr (map byte_char bs)
                 else Inl UnicodeDecodeError
      | Utf8 \<Rightarrow> if valid_utf8 bs then Inr (map byte_char bs) else Inl UnicodeDecodeError)"

text \<open>
  \<^verbatim>\<open>bytes.decode(v)\<close>: the unbound method accepts a byte sequence only; any other
  argument is a \<open>TypeError\<close>.
\<close>

definition bytes_decode :: "codec \<Rightarrow> pyval \<Rightarrow> error + pyval" where
  "bytes_decode enc v =
     (case v of
        PyBytes bs \<Rightarrow> (case decode enc bs of Inl e \<Rightarrow> Inl e | Inr t \<Rightarrow> Inr (PyText t))
      | _ \<Rightarrow> Inl TypeError)"

subsection \<open>Integers from bytes\<close>

fun le_uint :: "bytes \<Rightarrow> int" where
  "le_uint [] = 0"
| "le_uint (b # bs) = uint b + 256 * le_uint bs"

text \<open>\<^verbatim>\<open>struct.unpack('<Q', b)[0]\<close> requires exactly eight bytes.\<close>

definition unpack_Q :: "bytes \<Rightarrow> error + int" where
  "unpack_Q b = (if length b = 8 then Inr (le_uint b) else Inl StructError)"

text \<open>\<^verbatim>\<open>pymysql.util.byte2int\<close> unpacks one unsigned byte; \<^verbatim>\<open>int2byte\<close> packs one.\<close>

definition byte2int :: "bytes \<Rightarrow> error + int" where
  "byte2int b = (case b of [x] \<Rightarrow> Inr (uint x) | _ \<Rightarrow> Inl StructError)"

definition int2byte :: "int \<Rightarrow> bytes" where
  "int2byte i = [word_of_int i]"

subsection \<open>The packet cursor and the world\<close>

text \<open>
  Modelled from the spec: the packet cursor (\<^verbatim>\<open>from_packet\<close>) is an external class.
  The specification describes it as a sequential reader over the packet's byte buffer
  with little-endian integer reads, raw byte-range reads and a positional skip, which
  tracks the total of bytes consumed, carries the already parsed header fields and
  whose reads are bounds-checked and fail when the request does not fit the packet.
  \<open>buffer\<close> holds the bytes not yet consumed.
\<close>

record packet =
  p_event_type :: int
  p_timestamp :: int
  p_log_pos :: int
  p_flags :: int
  read_bytes :: int
  buffer :: bytes

record world =
  cursor :: packet
  dicts :: store

type_synonym 'a action = "world \<Rightarrow> (error + 'a) \<times> world"

definition return :: "'a \<Rightarrow> 'a action" where
  "return x w = (Inr x, w)"

definition raise :: "error \<Rightarrow> 'a action" where
  "raise e w = (Inl e, w)"

definition bind :: "'a action \<Rightarrow> ('a \<Rightarrow> 'b action) \<Rightarrow> 'b action" where
  "bind m f w = (case m w of (Inl e, w') \<Rightarrow> (Inl e, w') | (Inr x, w') \<Rightarrow> f x w')"

definition lift :: "error + 'a \<Rightarrow> 'a action" where
  "lift r w = (r, w)"

text \<open>Modelled from the spec: the bounds-checked raw read of the packet cursor.\<close>

definition read :: "int \<Rightarrow> bytes action" where
  "read n w =
     (let p = cursor w; b = buffer p in
      if 0 \<le> n \<and> n \<le> int (length b)
      then (Inr (take (nat n) b),
            w\<lparr>cursor := p\<lparr>read_bytes := read_bytes p + n, buffer := drop (nat n) b\<rparr>\<rparr>)
      else (Inl PacketError, w))"

text \<open>Modelled from the spec: the positional skip of the packet cursor.\<close>

definition advance :: "int \<Rightarrow> unit action" where
  "advance n = bind (read n) (\<lambda>_. return ())"

text \<open>Modelled from the spec: the fixed-width little-endian reads of the packet cursor.\<close>

definition read_uint32 :: "int action" where
  "read_uint32 = bind (read 4) (\<lambda>b. return (le_uint b))"

definition read_uint16 :: "int action" where
  "read_uint16 = bind (read 2) (\<lambda>b. return (le_uint b))"

subsection \<open>Dictionary objects\<close>

text \<open>\<^verbatim>\<open>{}\<close> allocates a fresh, empty dictionary.\<close>

definition new_dict :: "pyval action" where
  "new_dict w = (Inr (PyRef (length (dicts w))), w\<lparr>dicts := dicts w @ [[]]\<rparr>)"

definition is_dict :: "store \<Rightarrow> pyval \<Rightarrow> bool" where
  "is_dict s v = (case v of PyRef a \<Rightarrow> a < length s | _ \<Rightarrow> False)"

text \<open>\<^verbatim>\<open>d[k] = v\<close>\<close>

definition setitem :: "pyval \<Rightarrow> string \<Rightarrow> pyval \<Rightarrow> unit action" where
  "setitem d k v w =
     (case d of
        PyRef a \<Rightarrow>
          if a < length (dicts w)
          then (Inr (), w\<lparr>dicts := (dicts w)[a := AList.update k v (dicts w ! a)]\<rparr>)
          else (Inl TypeError, w)
      | _ \<Rightarrow> (Inl TypeError, w))"

text \<open>\<^verbatim>\<open>d[k]\<close>\<close>

definition getitem :: "pyval \<Rightarrow> string \<Rightarrow> pyval action" where
  "getitem d k w =
     (case d of
        PyRef a \<Rightarrow>
          if a < length (dicts w)
          then (case map_of (dicts w ! a) k of
                  Some v \<Rightarrow> (Inr v, w)
                | None \<Rightarrow> (Inl (KeyError k), w))
          else (Inl TypeError, w)
      | _ \<Rightarrow> (Inl TypeError, w))"

definition gets :: "(world \<Rightarrow> 'a) \<Rightarrow> 'a action" where
  "gets f w = (Inr (f w), w)"

text \<open>The keys of a dictionary object, and the truth value of \<^verbatim>\<open>if h:\<close>.\<close>

definition keys_of :: "store \<Rightarrow> pyval \<Rightarrow> string list" where
  "keys_of s d = (case d of PyRef a \<Rightarrow> map fst (s ! a) | _ \<Rightarrow> [])"

definition items_of :: "store \<Rightarrow> pyval \<Rightarrow> dict" where
  "items_of s d = (case d of PyRef a \<Rightarrow> s ! a | _ \<Rightarrow> [])"

definition truthy :: "store \<Rightarrow> pyval \<Rightarrow> bool" where
  "truthy s v =
     (case v of
        PyNone \<Rightarrow> False
      | PyBool b \<Rightarrow> b
      | PyInt i \<Rightarrow> i \<noteq> 0
      | PyBytes b \<Rightarrow> b \<noteq> []
      | PyText t \<Rightarrow> t \<noteq> []
      | PyRef a \<Rightarrow> a < length s \<longrightarrow> s ! a \<noteq> [])"

fun set_items :: "pyval \<Rightarrow> dict \<Rightarrow> unit action" where
  "set_items d [] = return ()"
| "set_items d ((k, v) # kvs) = bind (setitem d k v) (\<lambda>_. set_items d kvs)"

text \<open>
  \<^verbatim>\<open>d.update(h)\<close>: every item of the mapping \<open>h\<close> is assigned into \<open>d\<close>, in the
  order of \<open>h\<close>.
\<close>

definition dict_update :: "pyval \<Rightarrow> pyval \<Rightarrow> unit action" where
  "dict_update d h w =
     (if \<not> is_dict (dicts w) d then (Inl AttributeError, w)
      else if is_dict (dicts w) h then set_items d (items_of (dicts w) h) w
      else (case h of PyText _ \<Rightarrow> (Inl ValueError, w) | _ \<Rightarrow> (Inl TypeError, w)))"

subsection \<open>\<^verbatim>\<open>iter_bytes_to_string\<close>\<close>

text \<open>
  The loop \<^verbatim>\<open>for key in hash.keys()\<close> over the keys the dictionary has when the loop
  starts.  A value that is not a dictionary is passed to \<^verbatim>\<open>bytes.decode\<close> inside
  \<^verbatim>\<open>try\<close>; on any exception the loop continues with the next key.  A dictionary value
  is handed to the recursive call \<open>rec\<close>, outside the \<^verbatim>\<open>try\<close>.
\<close>

fun for_keys :: "(pyval \<Rightarrow> pyval action) \<Rightarrow> codec \<Rightarrow> pyval \<Rightarrow> string list \<Rightarrow> unit action" where
  "for_keys rec enc hash [] = return ()"
| "for_keys rec enc hash (key # keys) =
     bind (getitem hash key) (\<lambda>v.
     bind (\<lambda>w. if \<not> is_dict (dicts w) v
               then (case bytes_decode enc v of
                       Inl _ \<Rightarrow> return () w
                     | Inr t \<Rightarrow> setitem hash key t w)
               else bind (rec v) (\<lambda>_. return ()) w) (\<lambda>_.
     for_keys rec enc hash keys))"

text \<open>
  The first argument bounds the depth of nested calls: it is the number of frames the
  interpreter still grants, and a call made with none left raises \<open>RecursionError\<close>.
\<close>

primrec iter_bytes_to_string :: "nat \<Rightarrow> codec \<Rightarrow> pyval \<Rightarrow> pyval action" where
  "iter_bytes_to_string 0 enc hash = raise RecursionError"
| "iter_bytes_to_string (Suc n) enc hash =
     (\<lambda>w. if is_dict (dicts w) hash
          then bind (for_keys (iter_bytes_to_string n enc) enc hash (keys_of (dicts w) hash))
                 (\<lambda>_. return hash) w
          else return hash w)"

subsection \<open>The event classes\<close>

record binlog_event =
  table_map :: obj
  event_type :: int
  timestamp :: int
  event_size :: int
  log_pos :: int
  ctl_connection :: obj
  processed :: bool
  hashes :: pyval

record gtid_event = binlog_event +
  commit_flag :: bool
  sid :: bytes
  gno :: int
  gtid_hashes :: pyval

record rotate_event = binlog_event +
  position :: int
  next_binlog :: string
  rotate_hashes :: pyval

record xid_event = binlog_event +
  xid_only_schemas :: obj
  xid :: int
  xid_hashes :: pyval

record query_event = binlog_event +
  query_only_schemas :: obj
  slave_proxy_id :: int
  execution_time :: int
  schema_length :: int
  error_code :: int
  status_vars_length :: int
  status_vars :: bytes
  schema :: bytes
  query :: string
  query_hashes :: pyval

text \<open>The classes themselves, and \<^verbatim>\<open>__class__.__name__\<close>.\<close>

datatype event_class =
    GtidEvent
  | RotateEvent
  | FormatDescriptionEvent
  | StopEvent
  | XidEvent
  | QueryEvent
  | NotImplementedEvent

fun class_name :: "event_class \<Rightarrow> string" where
  "class_name GtidEvent = ''GtidEvent''"
| "class_name RotateEvent = ''RotateEvent''"
| "class_name FormatDescriptionEvent = ''FormatDescriptionEvent''"
| "class_name StopEvent = ''StopEvent''"
| "class_name XidEvent = ''XidEvent''"
| "class_name QueryEvent = ''QueryEvent''"
| "class_name NotImplementedEvent = ''NotImplementedEvent''"

text \<open>An instance of one of the classes.\<close>

datatype event =
    Gtid gtid_event
  | Rotate rotate_event
  | FormatDescription binlog_event
  | Stop binlog_event
  | Xid xid_event
  | Query query_event
  | NotImplemented binlog_event

fun class_of :: "event \<Rightarrow> event_class" where
  "class_of (Gtid _) = GtidEvent"
| "class_of (Rotate _) = RotateEvent"
| "class_of (FormatDescription _) = FormatDescriptionEvent"
| "class_of (Stop _) = StopEvent"
| "class_of (Xid _) = XidEvent"
| "class_of (Query _) = QueryEvent"
| "class_of (NotImplemented _) = NotImplementedEvent"

subsection \<open>Constructors\<close>

text \<open>
  Keyword arguments are a mapping from names to opaque values.  \<^verbatim>\<open>BinLogEvent.__init__\<close>
  declares \<^verbatim>\<open>only_tables\<close>, \<^verbatim>\<open>only_schemas\<close> and \<^verbatim>\<open>freeze_schema\<close>; the subclasses
  forward \<^verbatim>\<open>**kwargs\<close> to it, so any other keyword is a \<open>TypeError\<close> of the call.
\<close>

type_synonym kwargs = "(string \<times> obj) list"

definition accepted_keywords :: "string list" where
  "accepted_keywords = [''only_tables'', ''only_schemas'', ''freeze_schema'']"

definition BinLogEvent_init :: "int \<Rightarrow> obj \<Rightarrow> obj \<Rightarrow> kwargs \<Rightarrow> binlog_event action" where
  "BinLogEvent_init esize tmap ctl kwargs =
     (if \<not> list_all (\<lambda>k. k \<in> set accepted_keywords) (map fst kwargs) then raise TypeError
      else
        bind (gets (\<lambda>w. p_event_type (cursor w))) (\<lambda>et.
        bind (gets (\<lambda>w. p_timestamp (cursor w))) (\<lambda>ts.
        bind (gets (\<lambda>w. p_log_pos (cursor w))) (\<lambda>lp.
        bind new_dict (\<lambda>h.
        return \<lparr>table_map = tmap, event_type = et, timestamp = ts,
                event_size = esize, log_pos = lp, ctl_connection = ctl,
                processed = True, hashes = h\<rparr>)))))"

text \<open>\<^verbatim>\<open>kwargs["only_schemas"]\<close>\<close>

definition kwargs_get :: "kwargs \<Rightarrow> string \<Rightarrow> obj action" where
  "kwargs_get kwargs k = (case map_of kwargs k of Some v \<Rightarrow> return v | None \<Rightarrow> raise (KeyError k))"

definition read_table_id :: "int action" where
  "read_table_id = bind (read 6) (\<lambda>b. lift (unpack_Q (b @ int2byte 0 @ int2byte 0)))"

definition GtidEvent_init :: "int \<Rightarrow> obj \<Rightarrow> obj \<Rightarrow> kwargs \<Rightarrow> gtid_event action" where
  "GtidEvent_init esize tmap ctl kwargs =
     bind (BinLogEvent_init esize tmap ctl kwargs) (\<lambda>self.
     bind (read 1) (\<lambda>b.
     bind (lift (byte2int b)) (\<lambda>c.
     bind (read 16) (\<lambda>s.
     bind (read 8) (\<lambda>q.
     bind (lift (unpack_Q q)) (\<lambda>g.
     bind new_dict (\<lambda>h.
     return (binlog_event.extend self
       (gtid_event.fields (c = 1) s g h)))))))))"

definition RotateEvent_init :: "codec \<Rightarrow> int \<Rightarrow> obj \<Rightarrow> obj \<Rightarrow> kwargs \<Rightarrow> rotate_event action" where
  "RotateEvent_init enc esize tmap ctl kwargs =
     bind (BinLogEvent_init esize tmap ctl kwargs) (\<lambda>self.
     bind (read 8) (\<lambda>q.
     bind (lift (unpack_Q q)) (\<lambda>pos.
     bind (read (esize - 8)) (\<lambda>name.
     bind (lift (decode enc name)) (\<lambda>text.
     bind new_dict (\<lambda>h.
     return (binlog_event.extend self
       (rotate_event.fields pos text h))))))))"

definition XidEvent_init :: "int \<Rightarrow> obj \<Rightarrow> obj \<Rightarrow> kwargs \<Rightarrow> xid_event action" where
  "XidEvent_init esize tmap ctl kwargs =
     bind (BinLogEvent_init esize tmap ctl kwargs) (\<lambda>self.
     bind (kwargs_get kwargs ''only_schemas'') (\<lambda>only_schemas.
     bind (read 8) (\<lambda>q.
     bind (lift (unpack_Q q)) (\<lambda>x.
     bind new_dict (\<lambda>h.
     return (binlog_event.extend self
       (xid_event.fields only_schemas x h)))))))"

definition QueryEvent_init :: "int \<Rightarrow> obj \<Rightarrow> obj \<Rightarrow> kwargs \<Rightarrow> query_event action" where
  "QueryEvent_init esize tmap ctl kwargs =
     bind (BinLogEvent_init esize tmap ctl kwargs) (\<lambda>self.
     bind (kwargs_get kwargs ''only_schemas'') (\<lambda>only_schemas.
     bind read_uint32 (\<lambda>slave_proxy_id.
     bind read_uint32 (\<lambda>execution_time.
     bind (read 1) (\<lambda>b.
     bind (lift (byte2int b)) (\<lambda>schema_length.
     bind read_uint16 (\<lambda>error_code.
     bind read_uint16 (\<lambda>status_vars_length.
     bind (read status_vars_length) (\<lambda>status_vars.
     bind (read schema_length) (\<lambda>schema.
     bind (advance 1) (\<lambda>_.
     bind (read (esize - 13 - status_vars_length - schema_length - 1)) (\<lambda>q.
     bind (lift (decode Utf8 q)) (\<lambda>query.
     bind new_dict (\<lambda>h.
     return (binlog_event.extend self
       (query_event.fields only_schemas slave_proxy_id execution_time schema_length
          error_code status_vars_length status_vars schema query h))))))))))))))))"

definition NotImplementedEvent_init :: "int \<Rightarrow> obj \<Rightarrow> obj \<Rightarrow> kwargs \<Rightarrow> binlog_event action" where
  "NotImplementedEvent_init esize tmap ctl kwargs =
     bind (BinLogEvent_init esize tmap ctl kwargs) (\<lambda>self.
     bind (advance esize) (\<lambda>_.
     return self))"

text \<open>
  Instantiating a class: \<^verbatim>\<open>cls(from_packet, event_size, table_map, ctl_connection, **kwargs)\<close>.
  \<^verbatim>\<open>FormatDescriptionEvent\<close> and \<^verbatim>\<open>StopEvent\<close> inherit the constructor of the base class.
\<close>

fun new_event :: "event_class \<Rightarrow> codec \<Rightarrow> int \<Rightarrow> obj \<Rightarrow> obj \<Rightarrow> kwargs \<Rightarrow> event action" where
  "new_event GtidEvent enc es tm ctl kw = bind (GtidEvent_init es tm ctl kw) (\<lambda>e. return (Gtid e))"
| "new_event RotateEvent enc es tm ctl kw =
     bind (RotateEvent_init enc es tm ctl kw) (\<lambda>e. return (Rotate e))"
| "new_event FormatDescriptionEvent enc es tm ctl kw =
     bind (BinLogEvent_init es tm ctl kw) (\<lambda>e. return (FormatDescription e))"
| "new_event StopEvent enc es tm ctl kw = bind (BinLogEvent_init es tm ctl kw) (\<lambda>e. return (Stop e))"
| "new_event XidEvent enc es tm ctl kw = bind (XidEvent_init es tm ctl kw) (\<lambda>e. return (Xid e))"
| "new_event QueryEvent enc es tm ctl kw = bind (QueryEvent_init es tm ctl kw) (\<lambda>e. return (Query e))"
| "new_event NotImplementedEvent enc es tm ctl kw =
     bind (NotImplementedEvent_init es tm ctl kw) (\<lambda>e. return (NotImplemented e))"

subsection \<open>The \<^verbatim>\<open>gtid\<close> property\<close>

definition hex_digit :: "nat \<Rightarrow> char" where
  "hex_digit d = ''0123456789abcdef'' ! d"

function hex_str :: "nat \<Rightarrow> string" where
  "hex_str n = (if n < 16 then [hex_digit n] else hex_str (n div 16) @ [hex_digit (n mod 16)])"
  by pat_completeness auto
termination
  by (relation "measure id") auto

function dec_str :: "nat \<Rightarrow> string" where
  "dec_str n = (if n < 10 then [hex_digit n] else dec_str (n div 10) @ [hex_digit (n mod 10)])"
  by pat_completeness auto
termination
  by (relation "measure id") auto

declare hex_str.simps [simp del] dec_str.simps [simp del]

text \<open>\<^verbatim>\<open>"{0:02x}".format(n)\<close> for a non-negative \<open>n\<close>: lowercase hex, zero-padded to width two.\<close>

definition format_02x :: "nat \<Rightarrow> string" where
  "format_02x n = (let s = hex_str n in replicate (2 - length s) CHR ''0'' @ s)"

text \<open>\<^verbatim>\<open>"%d" % i\<close>\<close>

definition format_d :: "int \<Rightarrow> string" where
  "format_d i = (if i < 0 then CHR ''-'' # dec_str (nat (- i)) else dec_str (nat i))"

text \<open>
  Iterating a byte sequence yields its elements as integers: in \<^verbatim>\<open>for c in self.sid\<close>
  every \<open>c\<close> is an \<^verbatim>\<open>int\<close>.
\<close>

definition iter_bytes :: "bytes \<Rightarrow> pyval list" where
  "iter_bytes b = map (\<lambda>x. PyInt (uint x)) b"

text \<open>
  The code point a text of one character denotes, read from the bytes of its UTF-8
  encoding; a text of no or of several characters denotes none.
\<close>

fun code_point :: "nat list \<Rightarrow> nat option" where
  "code_point [a] = (if a < 128 then Some a else None)"
| "code_point [a, b] = (if 192 \<le> a \<and> a < 224 then Some ((a - 192) * 64 + (b - 128)) else None)"
| "code_point [a, b, c] =
     (if 224 \<le> a \<and> a < 240 then Some ((a - 224) * 4096 + (b - 128) * 64 + (c - 128)) else None)"
| "code_point [a, b, c, d] =
     (if 240 \<le> a \<and> a < 248
      then Some ((a - 240) * 262144 + (b - 128) * 4096 + (c - 128) * 64 + (d - 128))
      else None)"
| "code_point _ = None"

text \<open>
  \<^verbatim>\<open>ord(c)\<close> accepts a text of one character or a byte sequence of length one; for any
  other argument, an integer among them, it raises \<open>TypeError\<close>.
\<close>

definition ord :: "pyval \<Rightarrow> error + nat" where
  "ord c =
     (case c of
        PyText t \<Rightarrow> (case code_point (map of_char t) of Some n \<Rightarrow> Inr n | None \<Rightarrow> Inl TypeError)
      | PyBytes b \<Rightarrow> (case b of [x] \<Rightarrow> Inr (unat x) | _ \<Rightarrow> Inl TypeError)
      | _ \<Rightarrow> Inl TypeError)"

text \<open>
  \<^verbatim>\<open>tuple(g)\<close> for a generator \<open>g\<close>: the elements are computed in order, and the first
  exception among them is the exception of the call.
\<close>

fun tuple_of :: "(error + 'a) list \<Rightarrow> error + 'a list" where
  "tuple_of [] = Inr []"
| "tuple_of (x # xs) =
     (case x of
        Inl e \<Rightarrow> Inl e
      | Inr v \<Rightarrow> (case tuple_of xs of Inl e \<Rightarrow> Inl e | Inr vs \<Rightarrow> Inr (v # vs)))"

text \<open>
  \<^verbatim>\<open>"%s%s%s%s-%s%s-%s%s-%s%s-%s%s%s%s%s%s" % args\<close>: the format string has sixteen
  \<^verbatim>\<open>%s\<close> places; a tuple of any other length is a \<open>TypeError\<close> of the \<^verbatim>\<open>%\<close> operator.
\<close>

definition gtid_format :: "string list \<Rightarrow> error + string" where
  "gtid_format args =
     (case args of
        [a, b, c, d, e, f, g, h, i, j, k, l, m, n, p, q] \<Rightarrow>
          Inr (a @ b @ c @ d @ ''-'' @ e @ f @ ''-'' @ g @ h @ ''-'' @ i @ j @ ''-''
               @ k @ l @ m @ n @ p @ q)
      | _ \<Rightarrow> Inl TypeError)"

text \<open>
  The property \<^verbatim>\<open>gtid\<close>: the tuple of \<^verbatim>\<open>"{0:02x}".format(ord(c))\<close> for the elements \<open>c\<close>
  of \<open>sid\<close> is formatted, and \<^verbatim>\<open>":%d" % self.gno\<close> is appended.
\<close>

definition gtid :: "'a gtid_event_scheme \<Rightarrow> error + string" where
  "gtid self =
     (case tuple_of (map (\<lambda>c. case ord c of Inl e \<Rightarrow> Inl e | Inr n \<Rightarrow> Inr (format_02x n))
                       (iter_bytes (sid self))) of
        Inl e \<Rightarrow> Inl e
      | Inr args \<Rightarrow>
          (case gtid_format args of
             Inl e \<Rightarrow> Inl e
           | Inr g \<Rightarrow> Inr (g @ '':'' @ format_d (gno self))))"

subsection \<open>\<^verbatim>\<open>_dump\<close> and \<^verbatim>\<open>dump\<close>\<close>

definition BinLogEvent_dump' :: "pyval action" where
  "BinLogEvent_dump' = return PyNone"

definition GtidEvent_dump' :: "'a gtid_event_scheme \<Rightarrow> pyval action" where
  "GtidEvent_dump' self =
     bind (setitem (gtid_hashes self) ''commit_flag'' (PyBool (commit_flag self))) (\<lambda>_.
     bind (lift (gtid self)) (\<lambda>g.
     bind (setitem (gtid_hashes self) ''gtid'' (PyText g)) (\<lambda>_.
     return (gtid_hashes self))))"

definition XidEvent_dump' :: "'a xid_event_scheme \<Rightarrow> pyval action" where
  "XidEvent_dump' self =
     bind BinLogEvent_dump' (\<lambda>_.
     bind (setitem (xid_hashes self) ''xid'' (PyInt (xid self))) (\<lambda>_.
     return (xid_hashes self)))"

definition QueryEvent_dump' :: "codec \<Rightarrow> 'a query_event_scheme \<Rightarrow> pyval action" where
  "QueryEvent_dump' enc self =
     bind BinLogEvent_dump' (\<lambda>_.
     bind (lift (bytes_decode enc (PyBytes (schema self)))) (\<lambda>s.
     bind (setitem (query_hashes self) ''schema'' s) (\<lambda>_.
     bind (setitem (query_hashes self) ''execution_time'' (PyInt (execution_time self))) (\<lambda>_.
     bind (setitem (query_hashes self) ''query'' (PyText (query self))) (\<lambda>_.
     return (query_hashes self))))))"

text \<open>
  \<^verbatim>\<open>BinLogEvent.dump\<close>, with the name of the instance's class and its \<^verbatim>\<open>_dump\<close> method
  as found by method resolution.  The method assigns the result of
  \<^verbatim>\<open>iter_bytes_to_string\<close> back to \<^verbatim>\<open>self.hashes\<close> and returns it.
\<close>

definition BinLogEvent_dump ::
  "nat \<Rightarrow> codec \<Rightarrow> string \<Rightarrow> pyval action \<Rightarrow> 'a binlog_event_scheme
   \<Rightarrow> (pyval \<times> 'a binlog_event_scheme) action" where
  "BinLogEvent_dump depth enc cls dump' self =
     bind (setitem (hashes self) ''class'' (PyText cls)) (\<lambda>_.
     bind (setitem (hashes self) ''timestamp'' (PyInt (timestamp self))) (\<lambda>_.
     bind (gets (\<lambda>w. p_log_pos (cursor w))) (\<lambda>lp.
     bind (setitem (hashes self) ''log_pos'' (PyInt lp)) (\<lambda>_.
     bind (setitem (hashes self) ''event_size'' (PyInt (event_size self))) (\<lambda>_.
     bind (gets (\<lambda>w. read_bytes (cursor w))) (\<lambda>rb.
     bind (setitem (hashes self) ''read_bytes'' (PyInt rb)) (\<lambda>_.
     bind (gets (\<lambda>w. p_flags (cursor w))) (\<lambda>fl.
     bind (setitem (hashes self) ''flags'' (PyInt fl)) (\<lambda>_.
     bind dump' (\<lambda>h.
     bind (\<lambda>w. if truthy (dicts w) h then dict_update (hashes self) h w else return () w) (\<lambda>_.
     bind (iter_bytes_to_string depth enc (hashes self)) (\<lambda>r.
     return (r, self\<lparr>hashes := r\<rparr>)))))))))))))"

definition RotateEvent_dump :: "'a rotate_event_scheme \<Rightarrow> pyval action" where
  "RotateEvent_dump self =
     bind (setitem (rotate_hashes self) ''class'' (PyText (class_name RotateEvent))) (\<lambda>_.
     bind (setitem (rotate_hashes self) ''position'' (PyInt (position self))) (\<lambda>_.
     bind (setitem (rotate_hashes self) ''next_binlog'' (PyText (next_binlog self))) (\<lambda>_.
     bind (setitem (rotate_hashes self) ''timestamp'' (PyInt (timestamp self))) (\<lambda>_.
     return (rotate_hashes self)))))"

text \<open>
  \<^verbatim>\<open>event.dump()\<close>: the method of the instance's class, with the instance as it is after
  the call.
\<close>

fun dump :: "nat \<Rightarrow> codec \<Rightarrow> event \<Rightarrow> (pyval \<times> event) action" where
  "dump depth enc (Gtid e) =
     bind (BinLogEvent_dump depth enc (class_name GtidEvent) (GtidEvent_dump' e) e)
       (\<lambda>(r, e'). return (r, Gtid e'))"
| "dump depth enc (Rotate e) = bind (RotateEvent_dump e) (\<lambda>r. return (r, Rotate e))"
| "dump depth enc (FormatDescription e) =
     bind (BinLogEvent_dump depth enc (class_name FormatDescriptionEvent) BinLogEvent_dump' e)
       (\<lambda>(r, e'). return (r, FormatDescription e'))"
| "dump depth enc (Stop e) =
     bind (BinLogEvent_dump depth enc (class_name StopEvent) BinLogEvent_dump' e)
       (\<lambda>(r, e'). return (r, Stop e'))"
| "dump depth enc (Xid e) =
     bind (BinLogEvent_dump depth enc (class_name XidEvent) (XidEvent_dump' e) e)
       (\<lambda>(r, e'). return (r, Xid e'))"
| "dump depth enc (Query e) =
     bind (BinLogEvent_dump depth enc (class_name QueryEvent) (QueryEvent_dump' enc e) e)
       (\<lambda>(r, e'). return (r, Query e'))"
| "dump depth enc (NotImplemented e) =
     bind (BinLogEvent_dump depth enc (class_name NotImplementedEvent) BinLogEvent_dump' e)
       (\<lambda>(r, e'). return (r, NotImplemented e'))"

subsection \<open>Notions used to state the properties\<close>

text \<open>The world after the cursor has consumed \<open>n\<close> bytes, and after one allocation.\<close>

definition consume :: "nat \<Rightarrow> world \<Rightarrow> world" where
  "consume n w = w\<lparr>cursor := (cursor w)\<lparr>read_bytes := read_bytes (cursor w) + int n,
                                       buffer := drop n (buffer (cursor w))\<rparr>\<rparr>"

definition alloc :: "world \<Rightarrow> world" where
  "alloc w = w\<lparr>dicts := dicts w @ [[]]\<rparr>"

text \<open>An action fails in \<open>w\<close> with one of the exceptions \<open>E\<close>.\<close>

definition fails_with :: "error set \<Rightarrow> 'a action \<Rightarrow> world \<Rightarrow> bool" where
  "fails_with E m w = (\<exists>e w'. m w = (Inl e, w') \<and> e \<in> E)"

text \<open>An action followed by a pure function on its result.\<close>

definition amap :: "('a \<Rightarrow> 'b) \<Rightarrow> 'a action \<Rightarrow> 'b action" where
  "amap g m w = (case m w of (Inl e, w') \<Rightarrow> (Inl e, w') | (Inr x, w') \<Rightarrow> (Inr (g x), w'))"

text \<open>The keywords of a call are among those the base constructor declares.\<close>

definition accepted :: "kwargs \<Rightarrow> bool" where
  "accepted kwargs = list_all (\<lambda>k. k \<in> set accepted_keywords) (map fst kwargs)"







text \<open>A value that is neither a byte sequence nor a reference.\<close>

definition inert :: "pyval \<Rightarrow> bool" where
  "inert v = (case v of PyBytes _ \<Rightarrow> False | PyRef _ \<Rightarrow> False | _ \<Rightarrow> True)"

text \<open>The six entries \<^verbatim>\<open>BinLogEvent.dump\<close> writes for every event.\<close>

definition envelope :: "event_class \<Rightarrow> 'a binlog_event_scheme \<Rightarrow> world \<Rightarrow> dict" where
  "envelope cls self w =
     [(''class'', PyText (class_name cls)),
      (''timestamp'', PyInt (timestamp self)),
      (''log_pos'', PyInt (p_log_pos (cursor w))),
      (''event_size'', PyInt (event_size self)),
      (''read_bytes'', PyInt (read_bytes (cursor w))),
      (''flags'', PyInt (p_flags (cursor w)))]"

text \<open>The base part of an instance, and the private dictionary of its class, if it has one.\<close>

fun base :: "event \<Rightarrow> binlog_event" where
  "base (Gtid e) = binlog_event.truncate e"
| "base (Rotate e) = binlog_event.truncate e"
| "base (FormatDescription e) = e"
| "base (Stop e) = e"
| "base (Xid e) = binlog_event.truncate e"
| "base (Query e) = binlog_event.truncate e"
| "base (NotImplemented e) = e"

fun own_hashes :: "event \<Rightarrow> pyval option" where
  "own_hashes (Gtid e) = Some (gtid_hashes e)"
| "own_hashes (Rotate e) = Some (rotate_hashes e)"
| "own_hashes (Xid e) = Some (xid_hashes e)"
| "own_hashes (Query e) = Some (query_hashes e)"
| "own_hashes _ = None"

text \<open>
  The entries each class's \<^verbatim>\<open>_dump\<close> writes into its private dictionary, for an instance
  whose \<open>gtid\<close> or \<open>schema\<close> can be rendered.
\<close>

fun variant_fields :: "codec \<Rightarrow> event \<Rightarrow> dict" where
  "variant_fields enc (Gtid e) =
     [(''commit_flag'', PyBool (commit_flag e)),
      (''gtid'', PyText (case gtid e of Inr t \<Rightarrow> t | Inl _ \<Rightarrow> []))]"
| "variant_fields enc (Xid e) = [(''xid'', PyInt (xid e))]"
| "variant_fields enc (Query e) =
     [(''schema'', PyText (case decode enc (schema e) of Inr t \<Rightarrow> t | Inl _ \<Rightarrow> [])),
      (''execution_time'', PyInt (execution_time e)),
      (''query'', PyText (query e))]"
| "variant_fields enc _ = []"

text \<open>
  The pattern
  \<^verbatim>\<open>^[0-9a-f]{8}-[0-9a-f]{4}-[0-9a-f]{4}-[0-9a-f]{4}-[0-9a-f]{12}:\d+$\<close>,
  the two hex digits of a byte, and the number a decimal numeral denotes.
\<close>

definition is_hex :: "char \<Rightarrow> bool" where
  "is_hex c = (c \<in> set ''0123456789abcdef'')"

definition is_digit :: "char \<Rightarrow> bool" where
  "is_digit c = (c \<in> set ''0123456789'')"

definition gtid_pattern :: "string \<Rightarrow> bool" where
  "gtid_pattern s =
     (list_all is_hex (take 8 s) \<and> take 1 (drop 8 s) = ''-'' \<and>
      list_all is_hex (take 4 (drop 9 s)) \<and> take 1 (drop 13 s) = ''-'' \<and>
      list_all is_hex (take 4 (drop 14 s)) \<and> take 1 (drop 18 s) = ''-'' \<and>
      list_all is_hex (take 4 (drop 19 s)) \<and> take 1 (drop 23 s) = ''-'' \<and>
      list_all is_hex (take 12 (drop 24 s)) \<and> take 1 (drop 36 s) = '':'' \<and>
      drop 37 s \<noteq> [] \<and> list_all is_digit (drop 37 s))"

definition hex_pair :: "byte \<Rightarrow> string" where
  "hex_pair b = [''0123456789abcdef'' ! (unat b div 16), ''0123456789abcdef'' ! (unat b mod 16)]"

definition decimal_value :: "string \<Rightarrow> nat" where
  "decimal_value ds = foldl (\<lambda>a c. 10 * a + (of_char c - 48)) 0 ds"

text \<open>
  Modelled from the spec: the types the specification's data model gives the envelope,
  which come from the external framing layer (\<^verbatim>\<open>timestamp: u32\<close>, \<^verbatim>\<open>event_size: u32\<close>,
  \<^verbatim>\<open>log_pos: u64\<close>, \<^verbatim>\<open>flags: u16\<close>, \<^verbatim>\<open>bytes_read: u32\<close>).
\<close>

definition envelope_in_range :: "packet \<Rightarrow> int \<Rightarrow> bool" where
  "envelope_in_range p esize =
     (0 \<le> p_timestamp p \<and> p_timestamp p < 2 ^ 32 \<and>
      0 \<le> esize \<and> esize < 2 ^ 32 \<and>
      0 \<le> p_log_pos p \<and> p_log_pos p < 2 ^ 64 \<and>
      0 \<le> p_flags p \<and> p_flags p < 2 ^ 16 \<and>
      0 \<le> read_bytes p \<and> read_bytes p < 2 ^ 32)"

text \<open>
  A value a dump may hold according to the specification's output contract, nested
  mappings apart: an unsigned 64-bit integer, a boolean, or well-formed UTF-8 text.
\<close>

definition char_byte :: "char \<Rightarrow> byte" where
  "char_byte c = of_char c"

definition scalar :: "pyval \<Rightarrow> bool" where
  "scalar v =
     (case v of
        PyInt i \<Rightarrow> 0 \<le> i \<and> i < 2 ^ 64
      | PyBool _ \<Rightarrow> True
      | PyText t \<Rightarrow> valid_utf8 (map char_byte t)
      | _ \<Rightarrow> False)"

subsection \<open>Sample inputs\<close>

text \<open>Concrete packets, the events they decode to and the worlds around them.\<close>

abbreviation (input) sample_rotate_world :: world where
  "sample_rotate_world \<equiv>
     \<lparr>cursor = \<lparr>p_event_type = 4, p_timestamp = 1000, p_log_pos = 200, p_flags = 0,
                 read_bytes = 19,
                 buffer = [4, 0, 0, 0, 0, 0, 0, 0, 109, 121, 115, 113, 108, 45, 98, 105, 110,
                           46, 48, 48, 48, 48, 48, 50]\<rparr>,
       dicts = []\<rparr>"

abbreviation (input) sample_rotate_event :: rotate_event where
  "sample_rotate_event \<equiv>
     \<lparr>table_map = 0, event_type = 4, timestamp = 1000, event_size = 24, log_pos = 200,
      ctl_connection = 0, processed = True, hashes = PyRef 0, position = 4,
      next_binlog = ''mysql-bin.000002'', rotate_hashes = PyRef 1\<rparr>"

abbreviation (input) sample_rotate_decoded :: world where
  "sample_rotate_decoded \<equiv>
     \<lparr>cursor = \<lparr>p_event_type = 4, p_timestamp = 1000, p_log_pos = 200, p_flags = 0,
                 read_bytes = 43, buffer = []\<rparr>,
       dicts = [[], []]\<rparr>"

abbreviation (input) sample_xid_world :: world where
  "sample_xid_world \<equiv>
     \<lparr>cursor = \<lparr>p_event_type = 16, p_timestamp = 1000, p_log_pos = 200, p_flags = 0,
                 read_bytes = 19, buffer = [42, 0, 0, 0, 0, 0, 0, 0]\<rparr>,
       dicts = []\<rparr>"

abbreviation (input) sample_xid_event :: xid_event where
  "sample_xid_event \<equiv>
     \<lparr>table_map = 0, event_type = 16, timestamp = 1000, event_size = 8, log_pos = 200,
      ctl_connection = 0, processed = True, hashes = PyRef 0, xid_only_schemas = 5, xid = 42,
      xid_hashes = PyRef 1\<rparr>"

abbreviation (input) sample_xid_decoded :: world where
  "sample_xid_decoded \<equiv>
     \<lparr>cursor = \<lparr>p_event_type = 16, p_timestamp = 1000, p_log_pos = 200, p_flags = 0,
                 read_bytes = 27, buffer = []\<rparr>,
       dicts = [[], []]\<rparr>"

abbreviation (input) sample_xid_dumped :: world where
  "sample_xid_dumped \<equiv>
     \<lparr>cursor = \<lparr>p_event_type = 16, p_timestamp = 1000, p_log_pos = 200, p_flags = 0,
                 read_bytes = 27, buffer = []\<rparr>,
       dicts = [[(''class'', PyText ''XidEvent''), (''timestamp'', PyInt 1000),
                 (''log_pos'', PyInt 200), (''event_size'', PyInt 8),
                 (''read_bytes'', PyInt 27), (''flags'', PyInt 0), (''xid'', PyInt 42)],
                [(''xid'', PyInt 42)]]\<rparr>"

abbreviation (input) sample_rotate_dumped :: world where
  "sample_rotate_dumped \<equiv>
     \<lparr>cursor = \<lparr>p_event_type = 4, p_timestamp = 1000, p_log_pos = 200, p_flags = 0,
                 read_bytes = 43, buffer = []\<rparr>,
       dicts = [[], [(''class'', PyText ''RotateEvent''), (''position'', PyInt 4),
                     (''next_binlog'', PyText ''mysql-bin.000002''),
                     (''timestamp'', PyInt 1000)]]\<rparr>"

abbreviation (input) sample_query_world :: world where
  "sample_query_world \<equiv>
     \<lparr>cursor = \<lparr>p_event_type = 2, p_timestamp = 1000, p_log_pos = 200, p_flags = 0,
                 read_bytes = 19,
                 buffer = [1, 0, 0, 0, 2, 0, 0, 0, 4, 0, 0, 0, 0,
                           116, 101, 115, 116, 0,
                           68, 82, 79, 80, 32, 84, 65, 66, 76, 69, 32, 116]\<rparr>,
       dicts = []\<rparr>"

abbreviation (input) sample_query_event :: query_event where
  "sample_query_event \<equiv>
     \<lparr>table_map = 0, event_type = 2, timestamp = 1000, event_size = 30, log_pos = 200,
      ctl_connection = 0, processed = True, hashes = PyRef 0, query_only_schemas = 5,
      slave_proxy_id = 1, execution_time = 2, schema_length = 4, error_code = 0,
      status_vars_length = 0, status_vars = [], schema = [116, 101, 115, 116],
      query = ''DROP TABLE t'', query_hashes = PyRef 1\<rparr>"

abbreviation (input) sample_query_decoded :: world where
  "sample_query_decoded \<equiv>
     \<lparr>cursor = \<lparr>p_event_type = 2, p_timestamp = 1000, p_log_pos = 200, p_flags = 0,
                 read_bytes = 49, buffer = []\<rparr>,
       dicts = [[], []]\<rparr>"

abbreviation (input) sample_query_dumped :: world where
  "sample_query_dumped \<equiv>
     \<lparr>cursor = \<lparr>p_event_type = 2, p_timestamp = 1000, p_log_pos = 200, p_flags = 0,
                 read_bytes = 49, buffer = []\<rparr>,
       dicts = [[(''class'', PyText ''QueryEvent''), (''timestamp'', PyInt 1000),
                 (''log_pos'', PyInt 200), (''event_size'', PyInt 30),
                 (''read_bytes'', PyInt 49), (''flags'', PyInt 0),
                 (''schema'', PyText ''test''), (''execution_time'', PyInt 2),
                 (''query'', PyText ''DROP TABLE t'')],
                [(''schema'', PyText ''test''), (''execution_time'', PyInt 2),
                 (''query'', PyText ''DROP TABLE t'')]]\<rparr>"



abbreviation (input) sample_gtid_world :: world where
  "sample_gtid_world \<equiv>
     \<lparr>cursor = \<lparr>p_event_type = 33, p_timestamp = 1000, p_log_pos = 200, p_flags = 0,
                 read_bytes = 19,
                 buffer = [1, 0x3e, 0x11, 0xfa, 0x47, 0x71, 0xca, 0x11, 0xe1, 0x9e, 0x33, 0xc8,
                           0x0a, 0xa9, 0x42, 0x95, 0x62, 23, 0, 0, 0, 0, 0, 0, 0]\<rparr>,
       dicts = []\<rparr>"

abbreviation (input) sample_gtid_event :: gtid_event where
  "sample_gtid_event \<equiv>
     \<lparr>table_map = 0, event_type = 33, timestamp = 1000, event_size = 25, log_pos = 200,
      ctl_connection = 0, processed = True, hashes = PyRef 0, commit_flag = True,
      sid = [0x3e, 0x11, 0xfa, 0x47, 0x71, 0xca, 0x11, 0xe1, 0x9e, 0x33, 0xc8, 0x0a, 0xa9, 0x42,
             0x95, 0x62],
      gno = 23, gtid_hashes = PyRef 1\<rparr>"

abbreviation (input) sample_gtid_decoded :: world where
  "sample_gtid_decoded \<equiv>
     \<lparr>cursor = \<lparr>p_event_type = 33, p_timestamp = 1000, p_log_pos = 200, p_flags = 0,
                 read_bytes = 44, buffer = []\<rparr>,
       dicts = [[], []]\<rparr>"

text \<open>A dictionary that holds itself, and three dictionaries nested in one another.\<close>

abbreviation (input) sample_cyclic_world :: world where
  "sample_cyclic_world \<equiv>
     \<lparr>cursor = \<lparr>p_event_type = 0, p_timestamp = 0, p_log_pos = 0, p_flags = 0,
                 read_bytes = 0, buffer = []\<rparr>,
       dicts = [[(''self'', PyRef 0)]]\<rparr>"

abbreviation (input) sample_deep_world :: world where
  "sample_deep_world \<equiv>
     \<lparr>cursor = \<lparr>p_event_type = 0, p_timestamp = 0, p_log_pos = 0, p_flags = 0,
                 read_bytes = 0, buffer = []\<rparr>,
       dicts = [[(''a'', PyBytes [97]), (''b'', PyRef 1), (''c'', PyBytes [99])],
                [(''d'', PyRef 2)],
                [(''e'', PyInt 1)]]\<rparr>"

abbreviation (input) sample_deep_result :: world where
  "sample_deep_result \<equiv>
     \<lparr>cursor = \<lparr>p_event_type = 0, p_timestamp = 0, p_log_pos = 0, p_flags = 0,
                 read_bytes = 0, buffer = []\<rparr>,
       dicts = [[(''a'', PyText ''a''), (''b'', PyRef 1), (''c'', PyBytes [99])],
                [(''d'', PyRef 2)],
                [(''e'', PyInt 1)]]\<rparr>"

section \<open>Running actions\<close>

lemma bind_Inr_iff:
  "bind m f w = (Inr y, w'') \<longleftrightarrow> (\<exists>x w'. m w = (Inr x, w') \<and> f x w' = (Inr y, w''))"
  by (auto simp: bind_def split: prod.splits sum.splits)

lemma action_cases:
  obtains (Err) e w' where "m w = (Inl e, w')" | (Ok) x w' where "m w = (Inr x, w')"
  by (cases "m w"; cases "fst (m w)"; auto)

lemma return_iff [simp]: "return x w = (r, w') \<longleftrightarrow> r = Inr x \<and> w' = w"
  by (auto simp: return_def)

lemma raise_iff [simp]: "raise e w = (r, w') \<longleftrightarrow> r = Inl e \<and> w' = w"
  by (auto simp: raise_def)

lemma lift_iff [simp]: "lift x w = (r, w') \<longleftrightarrow> x = r \<and> w' = w"
  by (auto simp: lift_def)

lemma gets_iff [simp]: "gets f w = (r, w') \<longleftrightarrow> r = Inr (f w) \<and> w' = w"
  by (auto simp: gets_def)

lemma consume_simps [simp]:
  "buffer (cursor (consume n w)) = drop n (buffer (cursor w))"
  "read_bytes (cursor (consume n w)) = read_bytes (cursor w) + int n"
  "p_log_pos (cursor (consume n w)) = p_log_pos (cursor w)"
  "p_flags (cursor (consume n w)) = p_flags (cursor w)"
  "p_timestamp (cursor (consume n w)) = p_timestamp (cursor w)"
  "p_event_type (cursor (consume n w)) = p_event_type (cursor w)"
  "dicts (consume n w) = dicts w"
  "consume m (consume n w) = consume (n + m) w"
  by (simp_all add: consume_def add.commute)

lemma alloc_simps [simp]:
  "cursor (alloc w) = cursor w"
  "dicts (alloc w) = dicts w @ [[]]"
  "consume n (alloc w) = alloc (consume n w)"
  by (simp_all add: alloc_def consume_def)

text \<open>Each primitive followed by a continuation, as one step of the run.\<close>

lemma bind_return: "bind (return x) f w = f x w"
  by (simp add: bind_def return_def)

lemma bind_raise: "bind (raise e) f w = (Inl e, w)"
  by (simp add: bind_def raise_def)

lemma bind_lift: "bind (lift r) f w = (case r of Inl e \<Rightarrow> (Inl e, w) | Inr x \<Rightarrow> f x w)"
  by (simp add: bind_def lift_def split: sum.splits)

lemma bind_gets: "bind (gets g) f w = f (g w) w"
  by (simp add: bind_def gets_def)

lemma bind_new_dict: "bind new_dict f w = f (PyRef (length (dicts w))) (alloc w)"
  by (simp add: bind_def new_dict_def alloc_def)

lemma bind_assoc: "bind (bind m f) g = bind m (\<lambda>x. bind (f x) g)"
  by (rule ext) (simp add: bind_def split: prod.splits sum.splits)

lemma bind_read:
  "bind (read n) f w =
     (if 0 \<le> n \<and> n \<le> int (length (buffer (cursor w)))
      then f (take (nat n) (buffer (cursor w))) (consume (nat n) w)
      else (Inl PacketError, w))"
  by (simp add: bind_def read_def Let_def consume_def)

lemma bind_kwargs_get:
  "bind (kwargs_get kw k) f w =
     (case map_of kw k of None \<Rightarrow> (Inl (KeyError k), w) | Some v \<Rightarrow> f v w)"
  by (simp add: kwargs_get_def bind_return bind_raise split: option.splits)

lemma bind_BinLogEvent_init:
  "bind (BinLogEvent_init es tm ctl kw) f w =
     (if accepted kw
      then f \<lparr>table_map = tm, event_type = p_event_type (cursor w),
              timestamp = p_timestamp (cursor w), event_size = es,
              log_pos = p_log_pos (cursor w), ctl_connection = ctl,
              processed = True, hashes = PyRef (length (dicts w))\<rparr> (alloc w)
      else (Inl TypeError, w))"
  by (simp add: BinLogEvent_init_def accepted_def bind_raise bind_assoc bind_gets bind_new_dict
      bind_return)

lemma bind_setitem:
  "bind (setitem d k v) f w =
     (case d of
        PyRef a \<Rightarrow>
          if a < length (dicts w)
          then f () (w\<lparr>dicts := (dicts w)[a := AList.update k v (dicts w ! a)]\<rparr>)
          else (Inl TypeError, w)
      | _ \<Rightarrow> (Inl TypeError, w))"
  by (simp add: bind_def setitem_def split: pyval.splits)

lemmas exec = bind_return bind_raise bind_lift bind_gets bind_new_dict bind_assoc bind_read
  bind_kwargs_get bind_BinLogEvent_init read_uint32_def read_uint16_def advance_def

lemma run_return: "m w = bind m return w"
  by (simp add: bind_def return_def split: prod.splits sum.splits)

lemma fails_withI: "m w = (Inl e, w') \<Longrightarrow> e \<in> E \<Longrightarrow> fails_with E m w"
  by (auto simp: fails_with_def)

lemma amap_bind: "amap g (bind m f) = bind m (\<lambda>x. amap g (f x))"
  by (rule ext) (simp add: amap_def bind_def split: prod.splits sum.splits)

lemma amap_return: "amap g (return x) = return (g x)"
  by (rule ext) (simp add: amap_def return_def)

section \<open>Bytes and numbers\<close>

lemma le_uint_nonneg: "0 \<le> le_uint bs"
  by (induction bs) simp_all

lemma le_uint_bound: "le_uint bs < 256 ^ length bs"
proof (induction bs)
  case Nil
  show ?case by simp
next
  case (Cons b bs)
  have "uint b < 256" using uint_bounded [of b] by simp
  moreover have "le_uint bs + 1 \<le> 256 ^ length bs" using Cons by simp
  then have "256 * (le_uint bs + 1) \<le> 256 * 256 ^ length bs" by simp
  ultimately show ?case by (simp add: algebra_simps)
qed

lemma unpack_Q_Inr_iff: "unpack_Q b = Inr i \<longleftrightarrow> length b = 8 \<and> i = le_uint b"
  by (auto simp: unpack_Q_def)

lemma unpack_Q_range: "unpack_Q b = Inr i \<Longrightarrow> 0 \<le> i \<and> i < 2 ^ 64"
  using le_uint_bound [of b] le_uint_nonneg [of b] by (auto simp: unpack_Q_def split: if_splits)

lemma list13:
  assumes "length xs = 13"
  obtains a b c d e f g h i j k l m where "xs = [a, b, c, d, e, f, g, h, i, j, k, l, m]"
  using assms by (auto simp: eval_nat_numeral length_Suc_conv)

section \<open>The constructors\<close>

lemma accepted_update:
  "accepted (AList.update ''only_schemas'' v kw) = accepted kw"
proof -
  have "set (map fst (AList.update k u xs)) = insert k (set (map fst xs))" for k u and xs :: kwargs
    by (induction xs) auto
  then show ?thesis
    by (simp add: accepted_def list_all_iff accepted_keywords_def del: set_map)
qed

lemma BinLogEvent_init_update:
  "BinLogEvent_init es tm ctl (AList.update ''only_schemas'' v kw) = BinLogEvent_init es tm ctl kw"
  using accepted_update [of v kw] by (simp add: BinLogEvent_init_def accepted_def)

lemma kwargs_get_update: "kwargs_get (AList.update k v kw) k = return v"
  by (simp add: kwargs_get_def update_conv')

lemma bind_return_fun: "bind (return x) f = f x"
  by (rule ext) (simp add: bind_return)

lemma XidEvent_init_inert:
  "XidEvent_init es tm ctl (AList.update ''only_schemas'' v' kw) =
     amap (\<lambda>e. e\<lparr>xid_only_schemas := v'\<rparr>)
       (XidEvent_init es tm ctl (AList.update ''only_schemas'' v kw))"
  by (simp add: XidEvent_init_def BinLogEvent_init_update kwargs_get_update bind_return_fun
      amap_bind amap_return binlog_event.defs xid_event.defs)

lemma QueryEvent_init_inert:
  "QueryEvent_init es tm ctl (AList.update ''only_schemas'' v' kw) =
     amap (\<lambda>e. e\<lparr>query_only_schemas := v'\<rparr>)
       (QueryEvent_init es tm ctl (AList.update ''only_schemas'' v kw))"
  by (simp add: QueryEvent_init_def BinLogEvent_init_update kwargs_get_update bind_return_fun
      amap_bind amap_return binlog_event.defs query_event.defs)

lemma XidEvent_init_missing:
  assumes "map_of kw ''only_schemas'' = None"
  shows "XidEvent_init es tm ctl kw w =
     (if accepted kw then (Inl (KeyError ''only_schemas''), alloc w) else (Inl TypeError, w))"
  using assms by (simp add: XidEvent_init_def exec)

lemma QueryEvent_init_missing:
  assumes "map_of kw ''only_schemas'' = None"
  shows "QueryEvent_init es tm ctl kw w =
     (if accepted kw then (Inl (KeyError ''only_schemas''), alloc w) else (Inl TypeError, w))"
  using assms by (simp add: QueryEvent_init_def exec)

section \<open>Properties of the constructors\<close>

text \<open>
  C9.  \<^verbatim>\<open>XidEvent\<close> and \<^verbatim>\<open>QueryEvent\<close> read \<^verbatim>\<open>kwargs["only_schemas"]\<close> before any payload
  field.  A call that does not supply \<^verbatim>\<open>only_schemas\<close> fails (with the \<open>KeyError\<close>, or with
  the \<open>TypeError\<close> of an undeclared keyword) and leaves the cursor as it was.  In a call
  that supplies it, another value changes nothing but the private attribute that stores it:
  the result, the decoded fields and the world are the same.
\<close>

theorem only_schemas_required_and_inert:
  "(map_of kwargs ''only_schemas'' = None \<longrightarrow>
      (\<exists>err w'. XidEvent_init esize tmap ctl kwargs w = (Inl err, w') \<and>
         err \<in> {KeyError ''only_schemas'', TypeError} \<and> cursor w' = cursor w) \<and>
      (\<exists>err w'. QueryEvent_init esize tmap ctl kwargs w = (Inl err, w') \<and>
         err \<in> {KeyError ''only_schemas'', TypeError} \<and> cursor w' = cursor w))
   \<and> XidEvent_init esize tmap ctl (AList.update ''only_schemas'' v' kwargs) w =
       (case XidEvent_init esize tmap ctl (AList.update ''only_schemas'' v kwargs) w of
          (Inl err, w') \<Rightarrow> (Inl err, w')
        | (Inr e, w') \<Rightarrow> (Inr (e\<lparr>xid_only_schemas := v'\<rparr>), w'))
   \<and> QueryEvent_init esize tmap ctl (AList.update ''only_schemas'' v' kwargs) w =
       (case QueryEvent_init esize tmap ctl (AList.update ''only_schemas'' v kwargs) w of
          (Inl err, w') \<Rightarrow> (Inl err, w')
        | (Inr e, w') \<Rightarrow> (Inr (e\<lparr>query_only_schemas := v'\<rparr>), w'))"
proof (intro conjI impI)
  assume none: "map_of kwargs ''only_schemas'' = None"
  show "\<exists>err w'. XidEvent_init esize tmap ctl kwargs w = (Inl err, w') \<and>
         err \<in> {KeyError ''only_schemas'', TypeError} \<and> cursor w' = cursor w"
    by (simp add: XidEvent_init_missing [OF none])
  show "\<exists>err w'. QueryEvent_init esize tmap ctl kwargs w = (Inl err, w') \<and>
         err \<in> {KeyError ''only_schemas'', TypeError} \<and> cursor w' = cursor w"
    by (simp add: QueryEvent_init_missing [OF none])
next
  show "XidEvent_init esize tmap ctl (AList.update ''only_schemas'' v' kwargs) w =
       (case XidEvent_init esize tmap ctl (AList.update ''only_schemas'' v kwargs) w of
          (Inl err, w') \<Rightarrow> (Inl err, w')
        | (Inr e, w') \<Rightarrow> (Inr (e\<lparr>xid_only_schemas := v'\<rparr>), w'))"
    by (subst XidEvent_init_inert [of _ _ _ v' _ v]) (simp add: amap_def)
next
  show "QueryEvent_init esize tmap ctl (AList.update ''only_schemas'' v' kwargs) w =
       (case QueryEvent_init esize tmap ctl (AList.update ''only_schemas'' v kwargs) w of
          (Inl err, w') \<Rightarrow> (Inl err, w')
        | (Inr e, w') \<Rightarrow> (Inr (e\<lparr>query_only_schemas := v'\<rparr>), w'))"
    by (subst QueryEvent_init_inert [of _ _ _ v' _ v]) (simp add: amap_def)
qed

theorem only_schemas_required_and_inert_witness:
  "map_of ([] :: kwargs) ''only_schemas'' = None \<and>
   (\<exists>err w'. XidEvent_init 8 0 0 []
        \<lparr>cursor = \<lparr>p_event_type = 16, p_timestamp = 1, p_log_pos = 4, p_flags = 0,
                    read_bytes = 19, buffer = [42, 0, 0, 0, 0, 0, 0, 0]\<rparr>, dicts = []\<rparr>
        = (Inl err, w') \<and>
      err \<in> {KeyError ''only_schemas'', TypeError} \<and>
      cursor w' = \<lparr>p_event_type = 16, p_timestamp = 1, p_log_pos = 4, p_flags = 0,
                    read_bytes = 19, buffer = [42, 0, 0, 0, 0, 0, 0, 0]\<rparr>) \<and>
   (\<exists>err w'. QueryEvent_init 8 0 0 []
        \<lparr>cursor = \<lparr>p_event_type = 16, p_timestamp = 1, p_log_pos = 4, p_flags = 0,
                    read_bytes = 19, buffer = [42, 0, 0, 0, 0, 0, 0, 0]\<rparr>, dicts = []\<rparr>
        = (Inl err, w') \<and>
      err \<in> {KeyError ''only_schemas'', TypeError} \<and>
      cursor w' = \<lparr>p_event_type = 16, p_timestamp = 1, p_log_pos = 4, p_flags = 0,
                    read_bytes = 19, buffer = [42, 0, 0, 0, 0, 0, 0, 0]\<rparr>)"
  using only_schemas_required_and_inert
    [of "[]" 8 0 0 "\<lparr>cursor = \<lparr>p_event_type = 16, p_timestamp = 1, p_log_pos = 4, p_flags = 0,
                    read_bytes = 19, buffer = [42, 0, 0, 0, 0, 0, 0, 0]\<rparr>, dicts = []\<rparr>"]
  by simp

text \<open>
  C3.  A \<^verbatim>\<open>RotateEvent\<close> that is decoded has read eight bytes, whose little-endian
  unsigned value is \<open>position\<close>, and then exactly \<open>event_size - 8\<close> bytes, whose decoding is
  \<open>next_binlog\<close>: eight plus the length of the name bytes is \<open>event_size\<close>, and the cursor
  has advanced by \<open>event_size\<close>.
\<close>

theorem RotateEvent_reads_position_then_name:
  assumes "RotateEvent_init enc esize tmap ctl kwargs w = (Inr e, w')"
  shows "\<exists>pos_bytes name_bytes.
           buffer (cursor w) = pos_bytes @ name_bytes @ buffer (cursor w') \<and>
           length pos_bytes = 8 \<and> position e = le_uint pos_bytes \<and>
           0 \<le> position e \<and> position e < 2 ^ 64 \<and>
           decode enc name_bytes = Inr (next_binlog e) \<and>
           8 + int (length name_bytes) = esize \<and> event_size e = esize \<and>
           read_bytes (cursor w') = read_bytes (cursor w) + esize"
proof -
  let ?b = "buffer (cursor w)"
  from assms have ok: "8 \<le> length ?b" "8 \<le> esize" "esize - 8 \<le> int (length ?b) - 8"
    and e: "position e = le_uint (take 8 ?b)"
      "decode enc (take (nat (esize - 8)) (drop 8 ?b)) = Inr (next_binlog e)"
      "event_size e = esize"
    and w': "w' = alloc (alloc (consume (8 + nat (esize - 8)) w))"
    by (auto simp: RotateEvent_init_def exec unpack_Q_def binlog_event.defs rotate_event.defs
        split: if_splits sum.splits)
  have "?b = take 8 ?b @ take (nat (esize - 8)) (drop 8 ?b) @ drop (8 + nat (esize - 8)) ?b"
    by (metis append_take_drop_id drop_drop add.commute)
  moreover have "length (take 8 ?b) = 8" using ok by simp
  moreover have "8 + int (length (take (nat (esize - 8)) (drop 8 ?b))) = esize"
    using ok by simp
  moreover have "0 \<le> le_uint (take 8 ?b)" by (rule le_uint_nonneg)
  moreover have "le_uint (take 8 ?b) < 2 ^ 64"
    using le_uint_bound [of "take 8 ?b"] ok by simp
  moreover have "read_bytes (cursor w') = read_bytes (cursor w) + esize"
    using ok w' by simp
  moreover have "buffer (cursor w') = drop (8 + nat (esize - 8)) ?b"
    using w' by simp
  ultimately show ?thesis using e by metis
qed

theorem RotateEvent_reads_position_then_name_witness:
  "RotateEvent_init Utf8 24 0 0 []
     \<lparr>cursor = \<lparr>p_event_type = 4, p_timestamp = 1000, p_log_pos = 200, p_flags = 0,
                 read_bytes = 19,
                 buffer = [4, 0, 0, 0, 0, 0, 0, 0, 109, 121, 115, 113, 108, 45, 98, 105, 110,
                           46, 48, 48, 48, 48, 48, 50]\<rparr>,
       dicts = []\<rparr>
   = (Inr \<lparr>table_map = 0, event_type = 4, timestamp = 1000, event_size = 24, log_pos = 200,
           ctl_connection = 0, processed = True, hashes = PyRef 0, position = 4,
           next_binlog = ''mysql-bin.000002'', rotate_hashes = PyRef 1\<rparr>,
      \<lparr>cursor = \<lparr>p_event_type = 4, p_timestamp = 1000, p_log_pos = 200, p_flags = 0,
                  read_bytes = 43, buffer = []\<rparr>,
        dicts = [[], []]\<rparr>)
   \<and> (\<exists>pos_bytes name_bytes.
         [4, 0, 0, 0, 0, 0, 0, 0, 109, 121, 115, 113, 108, 45, 98, 105, 110,
          46, 48, 48, 48, 48, 48, 50] = pos_bytes @ name_bytes @ [] \<and>
         length pos_bytes = 8 \<and> (4 :: int) = le_uint pos_bytes \<and>
         decode Utf8 name_bytes = Inr ''mysql-bin.000002'' \<and>
         8 + int (length name_bytes) = 24)"
proof -
  have run: "RotateEvent_init Utf8 24 0 0 []
     \<lparr>cursor = \<lparr>p_event_type = 4, p_timestamp = 1000, p_log_pos = 200, p_flags = 0,
                 read_bytes = 19,
                 buffer = [4, 0, 0, 0, 0, 0, 0, 0, 109, 121, 115, 113, 108, 45, 98, 105, 110,
                           46, 48, 48, 48, 48, 48, 50]\<rparr>,
       dicts = []\<rparr>
   = (Inr \<lparr>table_map = 0, event_type = 4, timestamp = 1000, event_size = 24, log_pos = 200,
           ctl_connection = 0, processed = True, hashes = PyRef 0, position = 4,
           next_binlog = ''mysql-bin.000002'', rotate_hashes = PyRef 1\<rparr>,
      \<lparr>cursor = \<lparr>p_event_type = 4, p_timestamp = 1000, p_log_pos = 200, p_flags = 0,
                  read_bytes = 43, buffer = []\<rparr>,
        dicts = [[], []]\<rparr>)"
    by code_simp
  show ?thesis
    using RotateEvent_reads_position_then_name [OF run] run by simp
qed

text \<open>
  C1 (as amended).  \<^verbatim>\<open>QueryEvent.__init__\<close> makes no check of the lengths a payload
  declares and never raises \<open>MalformedPayload\<close>.  When
  \<open>13 + L_status + L_schema + 1 > event_size\<close>, the negative remaining length is handed to
  the cursor's read, and decoding fails: with the cursor's own failure, or before that
  with the \<open>KeyError\<close> or \<open>TypeError\<close> of the keyword arguments.  No event is returned.
  \<open>L_schema\<close> is the byte at offset 8 of the payload and \<open>L_status\<close> the little-endian
  value of the two bytes at offset 11.
\<close>

theorem QueryEvent_inconsistent_lengths_fail:
  assumes "buffer (cursor w) = hdr @ rest" and "length hdr = 13"
    and "13 + le_uint (drop 11 hdr) + uint (hdr ! 8) + 1 > esize"
  shows "\<exists>err w'. QueryEvent_init esize tmap ctl kwargs w = (Inl err, w') \<and>
           err \<in> {PacketError, KeyError ''only_schemas'', TypeError}"
proof -
  from assms(2) obtain a b c d e f g h i j k l m
    where h: "hdr = [a, b, c, d, e, f, g, h, i, j, k, l, m]"
    by (rule list13)
  have buf: "buffer (cursor w) = [a, b, c, d, e, f, g, h, i, j, k, l, m] @ rest"
    using assms(1) h by simp
  have bad: "13 + le_uint [l, m] + uint i + 1 > esize"
    using assms(3) h by simp
  show ?thesis
    using bad
    by (simp add: QueryEvent_init_def exec buf byte2int_def split: option.splits)
qed

theorem QueryEvent_inconsistent_lengths_fail_witness:
  "13 + le_uint (drop 11 [1, 0, 0, 0, 2, 0, 0, 0, 4, 0, 0, 0, 0])
      + uint ([1, 0, 0, 0, 2, 0, 0, 0, 4, 0, 0, 0, 0 :: byte] ! 8) + 1 > 17 \<and>
   (\<exists>err w'. QueryEvent_init 17 0 0 [(''only_schemas'', 5)]
       \<lparr>cursor = \<lparr>p_event_type = 2, p_timestamp = 1000, p_log_pos = 200, p_flags = 0,
                   read_bytes = 19,
                   buffer = [1, 0, 0, 0, 2, 0, 0, 0, 4, 0, 0, 0, 0] @
                            [116, 101, 115, 116, 0, 68, 82, 79, 80, 32, 84, 65, 66, 76, 69, 32,
                             116]\<rparr>,
         dicts = []\<rparr> = (Inl err, w') \<and>
      err \<in> {PacketError, KeyError ''only_schemas'', TypeError})"
  using QueryEvent_inconsistent_lengths_fail
    [of "\<lparr>cursor = \<lparr>p_event_type = 2, p_timestamp = 1000, p_log_pos = 200, p_flags = 0,
                   read_bytes = 19,
                   buffer = [1, 0, 0, 0, 2, 0, 0, 0, 4, 0, 0, 0, 0] @
                            [116, 101, 115, 116, 0, 68, 82, 79, 80, 32, 84, 65, 66, 76, 69, 32,
                             116]\<rparr>,
         dicts = []\<rparr>"
        "[1, 0, 0, 0, 2, 0, 0, 0, 4, 0, 0, 0, 0]"
        "[116, 101, 115, 116, 0, 68, 82, 79, 80, 32, 84, 65, 66, 76, 69, 32, 116]"
        17 0 0 "[(''only_schemas'', 5)]"]
  by simp

text \<open>
  C1 (as stated) fails: the payload below declares \<open>L_status = 0\<close> and \<open>L_schema = 4\<close>,
  so \<open>13 + 0 + 4 + 1 = 18 > 17 = event_size\<close>, and decoding ends with the cursor's
  failure, which is not \<open>MalformedPayload\<close>.
\<close>

theorem QueryEvent_inconsistent_lengths_counterexample:
  "13 + 0 + 4 + 1 > (17 :: int) \<and>
   fst (QueryEvent_init 17 0 0 [(''only_schemas'', 5)]
       \<lparr>cursor = \<lparr>p_event_type = 2, p_timestamp = 1000, p_log_pos = 200, p_flags = 0,
                   read_bytes = 19,
                   buffer = [1, 0, 0, 0, 2, 0, 0, 0, 4, 0, 0, 0, 0,
                             116, 101, 115, 116, 0, 68, 82, 79, 80, 32, 84, 65, 66, 76, 69, 32,
                             116]\<rparr>,
         dicts = []\<rparr>) = Inl PacketError \<and>
   fst (QueryEvent_init 17 0 0 [(''only_schemas'', 5)]
       \<lparr>cursor = \<lparr>p_event_type = 2, p_timestamp = 1000, p_log_pos = 200, p_flags = 0,
                   read_bytes = 19,
                   buffer = [1, 0, 0, 0, 2, 0, 0, 0, 4, 0, 0, 0, 0,
                             116, 101, 115, 116, 0, 68, 82, 79, 80, 32, 84, 65, 66, 76, 69, 32,
                             116]\<rparr>,
         dicts = []\<rparr>) \<noteq> Inl MalformedPayload"
  by code_simp

section \<open>Hexadecimal and decimal rendering\<close>

lemma hex_digit_is_hex: "d < 16 \<Longrightarrow> is_hex (hex_digit d)"
  by (simp add: hex_digit_def is_hex_def del: set_simps list.set)

lemma hex_digit_is_digit: "d < 10 \<Longrightarrow> is_digit (hex_digit d)"
proof -
  assume "d < 10"
  then have "d \<in> {0, 1, 2, 3, 4, 5, 6, 7, 8, 9}" by auto
  then show ?thesis
    by (elim insertE) (simp_all add: hex_digit_def is_digit_def)
qed

lemma hex_digit_value: "d < 10 \<Longrightarrow> of_char (hex_digit d) - 48 = d"
proof -
  assume "d < 10"
  then have "d \<in> {0, 1, 2, 3, 4, 5, 6, 7, 8, 9}" by auto
  then show ?thesis
    by (elim insertE) (simp_all add: hex_digit_def)
qed

lemma hex_digit_not_zero: "0 < d \<Longrightarrow> d < 10 \<Longrightarrow> hex_digit d \<noteq> CHR ''0''"
proof -
  assume "0 < d" "d < 10"
  then have "d \<in> {1, 2, 3, 4, 5, 6, 7, 8, 9}" by auto
  then show ?thesis
    by (elim insertE) (simp_all add: hex_digit_def)
qed

lemma hex_str_small: "n < 16 \<Longrightarrow> hex_str n = [hex_digit n]"
  by (subst hex_str.simps) simp

lemma format_02x_byte: "n < 256 \<Longrightarrow> format_02x n = [hex_digit (n div 16), hex_digit (n mod 16)]"
proof (cases "n < 16")
  case True
  then show ?thesis
    by (simp add: format_02x_def hex_str_small hex_digit_def)
next
  case False
  assume "n < 256"
  with False have "n div 16 < 16" by simp
  with False show ?thesis
    by (subst format_02x_def, subst hex_str.simps) (simp add: hex_str_small)
qed

lemma format_02x_unat: "format_02x (unat b) = hex_pair b"
proof -
  have "unat b < 256" using unsigned_less [of b] by simp
  then show ?thesis by (simp add: format_02x_byte hex_pair_def hex_digit_def)
qed

lemma hex_pair_is_hex: "list_all is_hex (hex_pair b)"
proof -
  have "unat b < 256" using unsigned_less [of b] by simp
  then have "unat b div 16 < 16" by simp
  then show ?thesis
    using hex_digit_is_hex [of "unat b div 16"] hex_digit_is_hex [of "unat b mod 16"]
    by (simp add: hex_pair_def hex_digit_def)
qed

lemma hex_pair_length: "length (hex_pair b) = 2"
  by (simp add: hex_pair_def)

lemma dec_str_digits: "list_all is_digit (dec_str n) \<and> dec_str n \<noteq> []"
proof (induction n rule: dec_str.induct)
  case (1 n)
  show ?case
  proof (cases "n < 10")
    case True
    then show ?thesis by (subst (1 2) dec_str.simps) (simp add: hex_digit_is_digit)
  next
    case False
    with 1 show ?thesis by (subst (1 2) dec_str.simps) (simp add: hex_digit_is_digit)
  qed
qed

lemma decimal_value_snoc: "decimal_value (ds @ [c]) = 10 * decimal_value ds + (of_char c - 48)"
  by (simp add: decimal_value_def)

lemma decimal_value_dec_str: "decimal_value (dec_str n) = n"
proof (induction n rule: dec_str.induct)
  case (1 n)
  show ?case
  proof (cases "n < 10")
    case True
    then show ?thesis by (subst dec_str.simps) (simp add: decimal_value_def hex_digit_value)
  next
    case False
    with 1 show ?thesis
      by (subst dec_str.simps) (simp add: decimal_value_snoc hex_digit_value)
  qed
qed

lemma dec_str_canonical: "0 < n \<Longrightarrow> hd (dec_str n) \<noteq> CHR ''0''"
proof (induction n rule: dec_str.induct)
  case (1 n)
  show ?case
  proof (cases "n < 10")
    case True
    with 1(2) show ?thesis by (subst dec_str.simps) (simp add: hex_digit_not_zero)
  next
    case False
    then have "0 < n div 10" by simp
    with 1(1) False have "hd (dec_str (n div 10)) \<noteq> CHR ''0''" by simp
    with False show ?thesis
      using dec_str_digits [of "n div 10"] by (subst dec_str.simps) simp
  qed
qed

lemma list16:
  assumes "length xs = 16"
  obtains a b c d e f g h i j k l m n p q
  where "xs = [a, b, c, d, e, f, g, h, i, j, k, l, m, n, p, q]"
  using assms by (auto simp: eval_nat_numeral length_Suc_conv)

text \<open>
  What the format string makes of the sixteen bytes once each is rendered by its value,
  as the docstring of \<^verbatim>\<open>gtid\<close> has it.
\<close>

lemma gtid_format_bytes:
  assumes "length s = 16"
  shows "gtid_format (map (\<lambda>b. format_02x (unat b)) s) =
           Inr (concat (map hex_pair (take 4 s)) @ ''-''
                @ concat (map hex_pair (take 2 (drop 4 s))) @ ''-''
                @ concat (map hex_pair (take 2 (drop 6 s))) @ ''-''
                @ concat (map hex_pair (take 2 (drop 8 s))) @ ''-''
                @ concat (map hex_pair (drop 10 s)))"
proof -
  from assms obtain a b c d f g h i j k l m n p q r
    where s: "s = [a, b, c, d, f, g, h, i, j, k, l, m, n, p, q, r]"
    by (rule list16)
  show ?thesis
    by (simp add: gtid_format_def s format_02x_unat)
qed

lemma gtid_matches:
  assumes "length s = 16"
  shows "gtid_pattern (concat (map hex_pair (take 4 s)) @ ''-''
                    @ concat (map hex_pair (take 2 (drop 4 s))) @ ''-''
                    @ concat (map hex_pair (take 2 (drop 6 s))) @ ''-''
                    @ concat (map hex_pair (take 2 (drop 8 s))) @ ''-''
                    @ concat (map hex_pair (drop 10 s)) @ '':''
                    @ dec_str n)"
proof -
  from assms obtain a b c d f g h i j k l m n' p q r
    where s: "s = [a, b, c, d, f, g, h, i, j, k, l, m, n', p, q, r]"
    by (rule list16)
  define hi where "hi = (\<lambda>x. hd (hex_pair x))"
  define lo where "lo = (\<lambda>x. hd (tl (hex_pair x)))"
  have hp: "hex_pair x = [hi x, lo x]" for x
    by (simp add: hex_pair_def hi_def lo_def)
  have hx: "is_hex (hi x)" "is_hex (lo x)" for x
    using hex_pair_is_hex [of x] by (simp_all add: hp)
  show ?thesis
    unfolding s by (simp add: gtid_pattern_def hp hx dec_str_digits)
qed

section \<open>The GTID string\<close>

text \<open>
  The elements of \<open>sid\<close> reach \<^verbatim>\<open>ord\<close> as integers, so the first of them raises; with
  no element at all the format string lacks its arguments.
\<close>

lemma ord_PyInt: "ord (PyInt i) = Inl TypeError"
  by (simp add: ord_def)

lemma gtid_raises: "gtid e = Inl TypeError"
  by (cases "sid e") (simp_all add: gtid_def iter_bytes_def ord_PyInt gtid_format_def)

lemma dump_Gtid_raises:
  assumes "hashes e = PyRef a" "a < length (dicts w)"
    and "gtid_hashes e = PyRef b" "b < length (dicts w)"
  shows "fst (dump depth enc (Gtid e) w) = Inl TypeError"
  using assms
  by (simp add: BinLogEvent_dump_def GtidEvent_dump'_def exec bind_setitem gtid_raises
      del: iter_bytes_to_string.simps)

text \<open>
  C2.  A payload of a commit-flag byte, sixteen \<open>sid\<close> bytes and eight \<open>gno\<close> bytes decodes
  to a \<^verbatim>\<open>GtidEvent\<close> with these fields, and reading the \<open>gtid\<close> of that event raises
  \<open>TypeError\<close>: no string is returned.  The same exception ends every \<^verbatim>\<open>dump\<close> of the
  event.
\<close>

theorem GtidEvent_gtid_raises_TypeError:
  assumes "accepted kwargs"
    and "buffer (cursor w) = c # s @ g @ rest" and "length s = 16" and "length g = 8"
  shows "\<exists>e w'.
           GtidEvent_init esize tmap ctl kwargs w = (Inr e, w') \<and>
           commit_flag e = (c = 1) \<and> sid e = s \<and> gno e = le_uint g \<and>
           buffer (cursor w') = rest \<and>
           gtid e = Inl TypeError \<and>
           (\<forall>depth enc. fst (dump depth enc (Gtid e) w') = Inl TypeError)"
proof -
  define e :: gtid_event where
    "e = \<lparr>table_map = tmap, event_type = p_event_type (cursor w),
          timestamp = p_timestamp (cursor w), event_size = esize,
          log_pos = p_log_pos (cursor w), ctl_connection = ctl, processed = True,
          hashes = PyRef (length (dicts w)), commit_flag = (c = 1), sid = s, gno = le_uint g,
          gtid_hashes = PyRef (Suc (length (dicts w)))\<rparr>"
  have run: "GtidEvent_init esize tmap ctl kwargs w = (Inr e, alloc (alloc (consume 25 w)))"
    using assms
    by (simp add: GtidEvent_init_def exec byte2int_def unpack_Q_def e_def binlog_event.defs
        gtid_event.defs word_uint_eq_iff)
  have fields: "commit_flag e = (c = 1)" "sid e = s" "gno e = le_uint g"
    by (simp_all add: e_def)
  have rest: "buffer (cursor (alloc (alloc (consume 25 w)))) = rest"
    using assms by simp
  have g: "gtid e = Inl TypeError"
    by (rule gtid_raises)
  have d: "fst (dump depth enc (Gtid e) (alloc (alloc (consume 25 w)))) = Inl TypeError"
    for depth enc
    by (rule dump_Gtid_raises [where a = "length (dicts w)" and b = "Suc (length (dicts w))"])
       (simp_all add: e_def)
  show ?thesis
    using run fields rest g d by blast
qed

theorem GtidEvent_gtid_raises_TypeError_witness:
  "accepted [] \<and>
   GtidEvent_init 25 0 0 [] sample_gtid_world = (Inr sample_gtid_event, sample_gtid_decoded) \<and>
   gtid sample_gtid_event = Inl TypeError \<and>
   fst (dump 1 Utf8 (Gtid sample_gtid_event) sample_gtid_decoded) = Inl TypeError"
proof -
  let ?s = "[0x3e, 0x11, 0xfa, 0x47, 0x71, 0xca, 0x11, 0xe1, 0x9e, 0x33, 0xc8, 0x0a, 0xa9, 0x42,
             0x95, 0x62 :: byte]"
  let ?g = "[23, 0, 0, 0, 0, 0, 0, 0 :: byte]"
  have a: "accepted []" by (simp add: accepted_def)
  have b: "buffer (cursor sample_gtid_world) = 1 # ?s @ ?g @ []" by simp
  have ls: "length ?s = 16" and lg: "length ?g = 8" by simp_all
  have r: "GtidEvent_init 25 0 0 [] sample_gtid_world = (Inr sample_gtid_event, sample_gtid_decoded)"
    by code_simp
  from GtidEvent_gtid_raises_TypeError [OF a b ls lg, of 25 0 0]
  obtain e w' where "GtidEvent_init 25 0 0 [] sample_gtid_world = (Inr e, w')"
    and "gtid e = Inl TypeError"
    and "\<forall>depth enc. fst (dump depth enc (Gtid e) w') = Inl TypeError"
    by blast
  with r a show ?thesis by simp
qed

section \<open>Dumping\<close>

lemma inert_simps [simp]:
  "inert PyNone" "inert (PyBool b)" "inert (PyInt i)" "inert (PyText t)"
  "\<not> inert (PyBytes bs)" "\<not> inert (PyRef a)"
  by (simp_all add: inert_def)

lemma inert_bytes_decode: "inert v \<Longrightarrow> bytes_decode enc v = Inl TypeError"
  by (cases v) (simp_all add: bytes_decode_def)

lemma inert_not_dict: "inert v \<Longrightarrow> \<not> is_dict s v"
  by (cases v) (simp_all add: is_dict_def)

lemma for_keys_inert:
  assumes "a < length (dicts w)" and "list_all (\<lambda>kv. inert (snd kv)) (dicts w ! a)"
    and "set ks \<subseteq> fst ` set (dicts w ! a)"
  shows "for_keys rec enc (PyRef a) ks w = (Inr (), w)"
  using assms(3)
proof (induction ks)
  case Nil
  then show ?case by simp
next
  case (Cons k ks)
  then have "k \<in> fst ` set (dicts w ! a)" by simp
  then have "map_of (dicts w ! a) k \<noteq> None" by (simp add: map_of_eq_None_iff)
  then obtain v where v: "map_of (dicts w ! a) k = Some v" by blast
  then have "(k, v) \<in> set (dicts w ! a)" by (rule map_of_SomeD)
  with assms(2) have "inert v" by (auto simp: list_all_iff)
  then show ?case
    using Cons assms(1) v
    by (simp add: bind_def getitem_def inert_not_dict inert_bytes_decode return_def)
qed

lemma bind_iter_inert:
  assumes "a < length (dicts w)" and "list_all (\<lambda>kv. inert (snd kv)) (dicts w ! a)"
  shows "bind (iter_bytes_to_string (Suc n) enc (PyRef a)) f w = f (PyRef a) w"
  using assms by (simp add: is_dict_def keys_of_def bind_def for_keys_inert return_def)

lemma bind_cond:
  "bind (\<lambda>w. if c w then m w else m' w) f w = (if c w then bind m f w else bind m' f w)"
  by (simp add: bind_def)

lemma bind_dict_update:
  "bind (dict_update d h) f w =
     (if \<not> is_dict (dicts w) d then (Inl AttributeError, w)
      else if is_dict (dicts w) h then bind (set_items d (items_of (dicts w) h)) f w
      else (case h of PyText _ \<Rightarrow> (Inl ValueError, w) | _ \<Rightarrow> (Inl TypeError, w)))"
  by (simp add: bind_def dict_update_def split: pyval.splits)

lemma list_update_aba: "a \<noteq> b \<Longrightarrow> xs[a := x, b := y, a := z] = xs[a := z, b := y]"
  by (metis list_update_overwrite list_update_swap)

lemmas dump_exec = exec bind_cond bind_setitem bind_dict_update bind_iter_inert truthy_def
  is_dict_def items_of_def envelope_def list_update_aba

lemma dump_Xid:
  assumes a: "hashes e = PyRef a" "a < length (dicts w)"
    and b: "xid_hashes e = PyRef b" "b < length (dicts w)" "a \<noteq> b"
    and sa: "dicts w ! a = [] \<or> dicts w ! a = envelope XidEvent e w @ [(''xid'', PyInt (xid e))]"
    and sb: "dicts w ! b = [] \<or> dicts w ! b = [(''xid'', PyInt (xid e))]"
  shows "dump (Suc n) enc (Xid e) w =
     (Inr (PyRef a, Xid e),
      w\<lparr>dicts := (dicts w)[a := envelope XidEvent e w @ [(''xid'', PyInt (xid e))],
            b := [(''xid'', PyInt (xid e))]]\<rparr>)"
  using a b sa sb
  apply (simp add: BinLogEvent_dump_def XidEvent_dump'_def BinLogEvent_dump'_def dump_exec
     del: iter_bytes_to_string.simps)
  apply (elim disjE)
  apply (simp_all add: dump_exec del: iter_bytes_to_string.simps)
  done

lemma dump_Query:
  assumes a: "hashes e = PyRef a" "a < length (dicts w)"
    and b: "query_hashes e = PyRef b" "b < length (dicts w)" "a \<noteq> b"
    and s: "decode enc (schema e) = Inr st"
    and sa: "dicts w ! a = [] \<or> dicts w ! a = envelope QueryEvent e w
               @ [(''schema'', PyText st), (''execution_time'', PyInt (execution_time e)),
                  (''query'', PyText (query e))]"
    and sb: "dicts w ! b = [] \<or> dicts w ! b =
               [(''schema'', PyText st), (''execution_time'', PyInt (execution_time e)),
                (''query'', PyText (query e))]"
  shows "dump (Suc n) enc (Query e) w =
     (Inr (PyRef a, Query e),
      w\<lparr>dicts := (dicts w)[a := envelope QueryEvent e w
               @ [(''schema'', PyText st), (''execution_time'', PyInt (execution_time e)),
                  (''query'', PyText (query e))],
            b := [(''schema'', PyText st), (''execution_time'', PyInt (execution_time e)),
                  (''query'', PyText (query e))]]\<rparr>)"
  using a b s sa sb
  apply (simp add: BinLogEvent_dump_def QueryEvent_dump'_def BinLogEvent_dump'_def dump_exec
     bytes_decode_def del: iter_bytes_to_string.simps)
  apply (elim disjE)
  apply (simp_all add: dump_exec del: iter_bytes_to_string.simps)
  done

lemma dump_Query_undecodable:
  assumes "hashes e = PyRef a" "a < length (dicts w)" and "decode enc (schema e) = Inl err"
  shows "fst (dump depth enc (Query e) w) = Inl err"
  using assms
  by (simp add: BinLogEvent_dump_def QueryEvent_dump'_def BinLogEvent_dump'_def exec
      bind_setitem bytes_decode_def del: iter_bytes_to_string.simps)

lemma dump_plain:
  assumes a: "hashes e = PyRef a" "a < length (dicts w)"
    and sa: "dicts w ! a = [] \<or> dicts w ! a = envelope cls e w"
  shows "BinLogEvent_dump (Suc n) enc (class_name cls) BinLogEvent_dump' e w =
     (Inr (PyRef a, e), w\<lparr>dicts := (dicts w)[a := envelope cls e w]\<rparr>)"
  using a sa
  apply (simp add: BinLogEvent_dump_def BinLogEvent_dump'_def dump_exec
     del: iter_bytes_to_string.simps)
  apply (elim disjE)
  apply (simp_all add: dump_exec del: iter_bytes_to_string.simps)
  done

lemma dump_Rotate:
  assumes b: "rotate_hashes e = PyRef b" "b < length (dicts w)"
    and sb: "dicts w ! b = [] \<or> dicts w ! b =
       [(''class'', PyText ''RotateEvent''), (''position'', PyInt (position e)),
        (''next_binlog'', PyText (next_binlog e)), (''timestamp'', PyInt (timestamp e))]"
  shows "dump depth enc (Rotate e) w =
     (Inr (PyRef b, Rotate e),
      w\<lparr>dicts := (dicts w)[b :=
       [(''class'', PyText ''RotateEvent''), (''position'', PyInt (position e)),
        (''next_binlog'', PyText (next_binlog e)), (''timestamp'', PyInt (timestamp e))]]\<rparr>)"
  using b sb
  apply (simp add: RotateEvent_dump_def dump_exec)
  apply (elim disjE)
  apply (simp_all add: dump_exec)
  done

lemma BinLogEvent_dump_0:
  "BinLogEvent_dump 0 enc cls hook self w \<noteq> (Inr x, w')"
  by (simp add: BinLogEvent_dump_def bind_Inr_iff)

lemma dump_0:
  assumes "dump 0 enc ev w = (Inr x, w')"
  shows "class_of ev = RotateEvent"
  using assms by (cases ev) (simp_all add: bind_Inr_iff BinLogEvent_dump_0)

section \<open>Events as the constructors leave them\<close>

lemma le_uint_take_bound: "le_uint (take n bs) < 256 ^ n"
proof -
  have "le_uint (take n bs) < 256 ^ length (take n bs)" by (rule le_uint_bound)
  also have "\<dots> \<le> (256 :: int) ^ n" by (rule power_increasing) simp_all
  finally show ?thesis .
qed

lemma Gtid_init_Inr:
  assumes "GtidEvent_init es tm ctl kw w = (Inr e, w1)"
  shows "hashes e = PyRef (length (dicts w)) \<and> gtid_hashes e = PyRef (Suc (length (dicts w))) \<and>
         dicts w1 = dicts w @ [[], []] \<and> timestamp e = p_timestamp (cursor w) \<and>
         event_size e = es \<and> length (sid e) = 16 \<and> 0 \<le> gno e \<and> gno e < 2 ^ 64 \<and>
         p_timestamp (cursor w1) = p_timestamp (cursor w)"
  using assms le_uint_take_bound [of 8 "drop 17 (buffer (cursor w))"]
    le_uint_nonneg [of "take 8 (drop 17 (buffer (cursor w)))"]
  by (auto simp: GtidEvent_init_def exec unpack_Q_def binlog_event.defs gtid_event.defs
      split: if_splits sum.splits)

lemma Rotate_init_Inr:
  assumes "RotateEvent_init enc es tm ctl kw w = (Inr e, w1)"
  shows "hashes e = PyRef (length (dicts w)) \<and> rotate_hashes e = PyRef (Suc (length (dicts w))) \<and>
         dicts w1 = dicts w @ [[], []] \<and> timestamp e = p_timestamp (cursor w) \<and>
         event_size e = es \<and> 0 \<le> position e \<and> position e < 2 ^ 64 \<and>
         (\<exists>bs. decode enc bs = Inr (next_binlog e)) \<and>
         p_timestamp (cursor w1) = p_timestamp (cursor w)"
  using assms le_uint_take_bound [of 8 "buffer (cursor w)"]
    le_uint_nonneg [of "take 8 (buffer (cursor w))"]
  by (auto simp: RotateEvent_init_def exec unpack_Q_def binlog_event.defs rotate_event.defs
      split: if_splits sum.splits)

lemma Xid_init_Inr:
  assumes "XidEvent_init es tm ctl kw w = (Inr e, w1)"
  shows "hashes e = PyRef (length (dicts w)) \<and> xid_hashes e = PyRef (Suc (length (dicts w))) \<and>
         dicts w1 = dicts w @ [[], []] \<and> timestamp e = p_timestamp (cursor w) \<and>
         event_size e = es \<and> 0 \<le> xid e \<and> xid e < 2 ^ 64 \<and>
         p_timestamp (cursor w1) = p_timestamp (cursor w)"
  using assms le_uint_take_bound [of 8 "buffer (cursor w)"]
    le_uint_nonneg [of "take 8 (buffer (cursor w))"]
  by (auto simp: XidEvent_init_def exec unpack_Q_def binlog_event.defs xid_event.defs
      split: if_splits sum.splits option.splits)

lemma Query_init_Inr:
  assumes "QueryEvent_init es tm ctl kw w = (Inr e, w1)"
  shows "hashes e = PyRef (length (dicts w)) \<and> query_hashes e = PyRef (Suc (length (dicts w))) \<and>
         dicts w1 = dicts w @ [[], []] \<and> timestamp e = p_timestamp (cursor w) \<and>
         event_size e = es \<and> 0 \<le> execution_time e \<and> execution_time e < 2 ^ 32 \<and>
         (\<exists>bs. decode Utf8 bs = Inr (query e)) \<and>
         p_timestamp (cursor w1) = p_timestamp (cursor w)"
  using assms le_uint_take_bound [of 4 "drop 4 (buffer (cursor w))"]
    le_uint_nonneg [of "take 4 (drop 4 (buffer (cursor w)))"]
  by (auto simp: QueryEvent_init_def exec binlog_event.defs query_event.defs
      split: if_splits sum.splits option.splits)

lemma BinLogEvent_init_Inr:
  assumes "BinLogEvent_init es tm ctl kw w = (Inr e, w1)"
  shows "hashes e = PyRef (length (dicts w)) \<and> dicts w1 = dicts w @ [[]] \<and>
         timestamp e = p_timestamp (cursor w) \<and> event_size e = es \<and> cursor w1 = cursor w"
  using assms
  by (subst (asm) run_return) (auto simp: exec split: if_splits)

lemma NotImplemented_init_Inr:
  assumes "NotImplementedEvent_init es tm ctl kw w = (Inr e, w1)"
  shows "hashes e = PyRef (length (dicts w)) \<and> dicts w1 = dicts w @ [[]] \<and>
         timestamp e = p_timestamp (cursor w) \<and> event_size e = es \<and>
         p_timestamp (cursor w1) = p_timestamp (cursor w) \<and>
         0 \<le> es \<and> es \<le> int (length (buffer (cursor w))) \<and>
         buffer (cursor w1) = drop (nat es) (buffer (cursor w)) \<and>
         read_bytes (cursor w1) = read_bytes (cursor w) + es \<and> accepted kw"
  using assms
  by (auto simp: NotImplementedEvent_init_def exec split: if_splits)

lemma new_event_cases [consumes 1, case_names Gtid Rotate FormatDescription Stop Xid Query NotImplemented]:
  assumes "new_event cls enc es tm ctl kw w = (Inr ev, w1)"
  obtains
    (Gtid) e where "cls = GtidEvent" "ev = Gtid e" "GtidEvent_init es tm ctl kw w = (Inr e, w1)"
  | (Rotate) e where "cls = RotateEvent" "ev = Rotate e"
      "RotateEvent_init enc es tm ctl kw w = (Inr e, w1)"
  | (FormatDescription) e where "cls = FormatDescriptionEvent" "ev = FormatDescription e"
      "BinLogEvent_init es tm ctl kw w = (Inr e, w1)"
  | (Stop) e where "cls = StopEvent" "ev = Stop e" "BinLogEvent_init es tm ctl kw w = (Inr e, w1)"
  | (Xid) e where "cls = XidEvent" "ev = Xid e" "XidEvent_init es tm ctl kw w = (Inr e, w1)"
  | (Query) e where "cls = QueryEvent" "ev = Query e"
      "QueryEvent_init es tm ctl kw w = (Inr e, w1)"
  | (NotImplemented) e where "cls = NotImplementedEvent" "ev = NotImplemented e"
      "NotImplementedEvent_init es tm ctl kw w = (Inr e, w1)"
  using assms by (cases cls) (auto simp: bind_Inr_iff)

section \<open>Dumping a decoded event\<close>

lemma base_simps [simp]:
  "hashes (binlog_event.truncate e) = hashes e"
  "timestamp (binlog_event.truncate e) = timestamp e"
  "event_size (binlog_event.truncate e) = event_size e"
  by (simp_all add: binlog_event.truncate_def)

lemma envelope_truncate [simp]: "envelope cls (binlog_event.truncate e) w = envelope cls e w"
  by (simp add: envelope_def)

lemma envelope_dicts [simp]: "envelope cls e (w\<lparr>dicts := d\<rparr>) = envelope cls e w"
  by (simp add: envelope_def)

lemma world_dicts_same: "dicts w = d \<Longrightarrow> w\<lparr>dicts := d\<rparr> = w"
  by simp

lemma upd2_append: "(xs @ [x, y])[length xs := u, Suc (length xs) := v] = xs @ [u, v]"
  by (simp add: list_update_append)

lemma upd1_append: "(xs @ [x])[length xs := u] = xs @ [u]"
  by simp

text \<open>
  The first dump of a decoded event of a class other than \<^verbatim>\<open>RotateEvent\<close>: what it
  returns, the dictionaries it leaves, and that a second dump changes nothing.
\<close>

lemma dump_new_event:
  assumes new: "new_event cls enc es tm ctl kw w = (Inr ev, w1)"
    and d: "dump depth enc ev w1 = (Inr (r, ev'), w2)"
    and nr: "cls \<noteq> RotateEvent"
  shows "ev' = ev \<and> r = hashes (base ev) \<and> r = PyRef (length (dicts w)) \<and>
         cursor w2 = cursor w1 \<and> length (dicts w) < length (dicts w2) \<and>
         dicts w2 ! length (dicts w) = envelope cls (base ev) w1 @ variant_fields enc ev \<and>
         (\<forall>h. own_hashes ev = Some h \<longrightarrow> items_of (dicts w2) h = variant_fields enc ev) \<and>
         dump depth enc ev w2 = (Inr (r, ev), w2)"
proof -
  from new nr have "class_of ev \<noteq> RotateEvent"
    by (cases rule: new_event_cases) simp_all
  with d obtain n where depth: "depth = Suc n"
    using dump_0 [of enc ev w1] by (cases depth) auto
  let ?a = "length (dicts w)"
  let ?b = "Suc (length (dicts w))"
  from new show ?thesis
  proof (cases rule: new_event_cases)
    case (Gtid e)
    from Gtid_init_Inr [OF Gtid(3)]
    have f: "hashes e = PyRef ?a" "gtid_hashes e = PyRef ?b" "dicts w1 = dicts w @ [[], []]"
      by simp_all
    have "fst (dump depth enc (Gtid e) w1) = Inl TypeError"
      by (rule dump_Gtid_raises [OF f(1) _ f(2)]) (simp_all add: f(3))
    with d Gtid(2) show ?thesis by simp
  next
    case (Rotate e)
    with nr show ?thesis by simp
  next
    case (FormatDescription e)
    from BinLogEvent_init_Inr [OF FormatDescription(3)]
    have f: "hashes e = PyRef ?a" "dicts w1 = dicts w @ [[]]" by simp_all
    let ?w2 = "w1\<lparr>dicts := dicts w @ [envelope FormatDescriptionEvent e w1]\<rparr>"
    have 1: "BinLogEvent_dump (Suc n) enc (class_name FormatDescriptionEvent) BinLogEvent_dump' e w1
              = (Inr (PyRef ?a, e), ?w2)"
      by (subst dump_plain [OF f(1), of w1 FormatDescriptionEvent n enc]) (simp_all add: f(2) list_update_append)
    have 2: "BinLogEvent_dump (Suc n) enc (class_name FormatDescriptionEvent) BinLogEvent_dump' e ?w2
              = (Inr (PyRef ?a, e), ?w2)"
      by (subst dump_plain [OF f(1), of ?w2 FormatDescriptionEvent n enc])
         (simp_all add: f(2) list_update_append)
    from d 1 2 show ?thesis
      by (auto simp add: depth FormatDescription f bind_def return_def simp del: class_name.simps)
  next
    case (Stop e)
    from BinLogEvent_init_Inr [OF Stop(3)]
    have f: "hashes e = PyRef ?a" "dicts w1 = dicts w @ [[]]" by simp_all
    let ?w2 = "w1\<lparr>dicts := dicts w @ [envelope StopEvent e w1]\<rparr>"
    have 1: "BinLogEvent_dump (Suc n) enc (class_name StopEvent) BinLogEvent_dump' e w1
              = (Inr (PyRef ?a, e), ?w2)"
      by (subst dump_plain [OF f(1), of w1 StopEvent n enc]) (simp_all add: f(2) list_update_append)
    have 2: "BinLogEvent_dump (Suc n) enc (class_name StopEvent) BinLogEvent_dump' e ?w2
              = (Inr (PyRef ?a, e), ?w2)"
      by (subst dump_plain [OF f(1), of ?w2 StopEvent n enc])
         (simp_all add: f(2) list_update_append)
    from d 1 2 show ?thesis
      by (auto simp add: depth Stop f bind_def return_def simp del: class_name.simps)
  next
    case (Xid e)
    from Xid_init_Inr [OF Xid(3)]
    have f: "hashes e = PyRef ?a" "xid_hashes e = PyRef ?b" "dicts w1 = dicts w @ [[], []]"
      by simp_all
    let ?X = "[(''xid'', PyInt (xid e))]"
    let ?w2 = "w1\<lparr>dicts := dicts w @ [envelope XidEvent e w1 @ ?X, ?X]\<rparr>"
    have 1: "dump (Suc n) enc (Xid e) w1 = (Inr (PyRef ?a, Xid e), ?w2)"
      by (subst dump_Xid [OF f(1) _ f(2), of w1 n enc])
         (simp_all add: f(3) nth_append upd2_append list_update_append)
    have 2: "dump (Suc n) enc (Xid e) ?w2 = (Inr (PyRef ?a, Xid e), ?w2)"
      by (subst dump_Xid [OF f(1) _ f(2), of ?w2 n enc])
         (simp_all add: f(3) nth_append upd2_append list_update_append)
    from d 1 2 show ?thesis
      by (simp add: depth Xid f nth_append items_of_def)
  next
    case (Query e)
    from Query_init_Inr [OF Query(3)]
    have f: "hashes e = PyRef ?a" "query_hashes e = PyRef ?b" "dicts w1 = dicts w @ [[], []]"
      by simp_all
    obtain st where st: "decode enc (schema e) = Inr st"
    proof (cases "decode enc (schema e)")
      case (Inl err)
      have "fst (dump depth enc (Query e) w1) = Inl err"
        by (rule dump_Query_undecodable [OF f(1) _ Inl]) (simp add: f(3))
      with d Query(2) show ?thesis by simp
    next
      case (Inr st)
      then show ?thesis by (rule that)
    qed
    let ?X = "[(''schema'', PyText st), (''execution_time'', PyInt (execution_time e)),
               (''query'', PyText (query e))]"
    let ?w2 = "w1\<lparr>dicts := dicts w @ [envelope QueryEvent e w1 @ ?X, ?X]\<rparr>"
    have 1: "dump (Suc n) enc (Query e) w1 = (Inr (PyRef ?a, Query e), ?w2)"
      by (subst dump_Query [OF f(1) _ f(2) _ _ st, of w1 n])
         (simp_all add: f(3) nth_append upd2_append list_update_append)
    have 2: "dump (Suc n) enc (Query e) ?w2 = (Inr (PyRef ?a, Query e), ?w2)"
      by (subst dump_Query [OF f(1) _ f(2) _ _ st, of ?w2 n])
         (simp_all add: f(3) nth_append upd2_append list_update_append)
    from d 1 2 show ?thesis
      by (simp add: depth Query f st nth_append items_of_def)
  next
    case (NotImplemented e)
    from NotImplemented_init_Inr [OF NotImplemented(3)]
    have f: "hashes e = PyRef ?a" "dicts w1 = dicts w @ [[]]" by simp_all
    let ?w2 = "w1\<lparr>dicts := dicts w @ [envelope NotImplementedEvent e w1]\<rparr>"
    have 1: "BinLogEvent_dump (Suc n) enc (class_name NotImplementedEvent) BinLogEvent_dump' e w1
              = (Inr (PyRef ?a, e), ?w2)"
      by (subst dump_plain [OF f(1), of w1 NotImplementedEvent n enc]) (simp_all add: f(2) list_update_append)
    have 2: "BinLogEvent_dump (Suc n) enc (class_name NotImplementedEvent) BinLogEvent_dump' e ?w2
              = (Inr (PyRef ?a, e), ?w2)"
      by (subst dump_plain [OF f(1), of ?w2 NotImplementedEvent n enc])
         (simp_all add: f(2) list_update_append)
    from d 1 2 show ?thesis
      by (auto simp add: depth NotImplemented f bind_def return_def simp del: class_name.simps)
  qed
qed

lemma dump_new_Rotate:
  assumes "RotateEvent_init enc es tm ctl kw w = (Inr e, w1)"
  shows "dump depth enc' (Rotate e) w1 =
           (Inr (rotate_hashes e, Rotate e),
            w1\<lparr>dicts := dicts w @ [[],
              [(''class'', PyText ''RotateEvent''), (''position'', PyInt (position e)),
               (''next_binlog'', PyText (next_binlog e)), (''timestamp'', PyInt (timestamp e))]]\<rparr>)"
    and "dump depth enc' (Rotate e)
           (w1\<lparr>dicts := dicts w @ [[],
              [(''class'', PyText ''RotateEvent''), (''position'', PyInt (position e)),
               (''next_binlog'', PyText (next_binlog e)), (''timestamp'', PyInt (timestamp e))]]\<rparr>) =
           (Inr (rotate_hashes e, Rotate e),
            w1\<lparr>dicts := dicts w @ [[],
              [(''class'', PyText ''RotateEvent''), (''position'', PyInt (position e)),
               (''next_binlog'', PyText (next_binlog e)), (''timestamp'', PyInt (timestamp e))]]\<rparr>)"
proof -
  from Rotate_init_Inr [OF assms]
  have f: "rotate_hashes e = PyRef (Suc (length (dicts w)))" "dicts w1 = dicts w @ [[], []]"
    by simp_all
  let ?R = "[(''class'', PyText ''RotateEvent''), (''position'', PyInt (position e)),
             (''next_binlog'', PyText (next_binlog e)), (''timestamp'', PyInt (timestamp e))]"
  show "dump depth enc' (Rotate e) w1 =
          (Inr (rotate_hashes e, Rotate e), w1\<lparr>dicts := dicts w @ [[], ?R]\<rparr>)"
    by (subst dump_Rotate [OF f(1), of w1 depth enc'])
       (simp_all add: f nth_append list_update_append)
  show "dump depth enc' (Rotate e) (w1\<lparr>dicts := dicts w @ [[], ?R]\<rparr>) =
          (Inr (rotate_hashes e, Rotate e), w1\<lparr>dicts := dicts w @ [[], ?R]\<rparr>)"
    by (subst dump_Rotate [OF f(1), of "w1\<lparr>dicts := dicts w @ [[], ?R]\<rparr>" depth enc'])
       (simp_all add: f nth_append list_update_append)
qed

section \<open>Properties of the dump\<close>

text \<open>
  C7.  A \<^verbatim>\<open>NotImplementedEvent\<close> that is decoded has advanced the cursor by exactly
  \<open>event_size\<close> bytes; the instance has the attributes of the base class only, and its dump
  holds exactly the six envelope entries.  With \<open>event_size = 10\<close>, declared keywords and
  ten bytes or more left in the packet, decoding succeeds and consumes exactly ten bytes.
\<close>

theorem NotImplementedEvent_skips_event_size:
  "(NotImplementedEvent_init esize tmap ctl kwargs w = (Inr e, w1) \<longrightarrow>
      0 \<le> esize \<and> buffer (cursor w1) = drop (nat esize) (buffer (cursor w)) \<and>
      int (length (buffer (cursor w))) = esize + int (length (buffer (cursor w1))) \<and>
      read_bytes (cursor w1) = read_bytes (cursor w) + esize \<and>
      (\<exists>w2. dump (Suc n) enc (NotImplemented e) w1 = (Inr (hashes e, NotImplemented e), w2) \<and>
            cursor w2 = cursor w1 \<and>
            items_of (dicts w2) (hashes e) =
              [(''class'', PyText ''NotImplementedEvent''),
               (''timestamp'', PyInt (p_timestamp (cursor w))),
               (''log_pos'', PyInt (p_log_pos (cursor w))),
               (''event_size'', PyInt esize),
               (''read_bytes'', PyInt (read_bytes (cursor w) + esize)),
               (''flags'', PyInt (p_flags (cursor w)))]))
   \<and> (accepted kwargs \<and> 10 \<le> length (buffer (cursor w)) \<longrightarrow>
        (\<exists>e w1. NotImplementedEvent_init 10 tmap ctl kwargs w = (Inr e, w1) \<and>
           buffer (cursor w1) = drop 10 (buffer (cursor w)) \<and>
           read_bytes (cursor w1) = read_bytes (cursor w) + 10))"
proof (intro conjI impI)
  assume run: "NotImplementedEvent_init esize tmap ctl kwargs w = (Inr e, w1)"
  note f = NotImplemented_init_Inr [OF run]
  from f show "0 \<le> esize" "buffer (cursor w1) = drop (nat esize) (buffer (cursor w))"
    "read_bytes (cursor w1) = read_bytes (cursor w) + esize"
    by simp_all
  from f show "int (length (buffer (cursor w))) = esize + int (length (buffer (cursor w1)))"
    by (simp add: of_nat_diff nat_le_iff)
  from run have cur: "cursor w1 = cursor (consume (nat esize) w)"
    by (auto simp: NotImplementedEvent_init_def exec split: if_splits)
  have "BinLogEvent_dump (Suc n) enc (class_name NotImplementedEvent) BinLogEvent_dump' e w1 =
          (Inr (PyRef (length (dicts w)), e),
           w1\<lparr>dicts := (dicts w1)[length (dicts w) := envelope NotImplementedEvent e w1]\<rparr>)"
    by (rule dump_plain) (simp_all add: f)
  then show "\<exists>w2. dump (Suc n) enc (NotImplemented e) w1 = (Inr (hashes e, NotImplemented e), w2) \<and>
            cursor w2 = cursor w1 \<and>
            items_of (dicts w2) (hashes e) =
              [(''class'', PyText ''NotImplementedEvent''),
               (''timestamp'', PyInt (p_timestamp (cursor w))),
               (''log_pos'', PyInt (p_log_pos (cursor w))),
               (''event_size'', PyInt esize),
               (''read_bytes'', PyInt (read_bytes (cursor w) + esize)),
               (''flags'', PyInt (p_flags (cursor w)))]"
    using f by (simp add: bind_def return_def items_of_def envelope_def cur)
next
  assume "accepted kwargs \<and> 10 \<le> length (buffer (cursor w))"
  then show "\<exists>e w1. NotImplementedEvent_init 10 tmap ctl kwargs w = (Inr e, w1) \<and>
           buffer (cursor w1) = drop 10 (buffer (cursor w)) \<and>
           read_bytes (cursor w1) = read_bytes (cursor w) + 10"
    by (simp add: NotImplementedEvent_init_def exec)
qed

theorem NotImplementedEvent_skips_event_size_witness:
  "NotImplementedEvent_init 10 0 0 []
     \<lparr>cursor = \<lparr>p_event_type = 99, p_timestamp = 1000, p_log_pos = 200, p_flags = 0,
                 read_bytes = 19, buffer = [1, 2, 3, 4, 5, 6, 7, 8, 9, 10, 11, 12]\<rparr>,
       dicts = []\<rparr>
   = (Inr \<lparr>table_map = 0, event_type = 99, timestamp = 1000, event_size = 10, log_pos = 200,
           ctl_connection = 0, processed = True, hashes = PyRef 0\<rparr>,
      \<lparr>cursor = \<lparr>p_event_type = 99, p_timestamp = 1000, p_log_pos = 200, p_flags = 0,
                  read_bytes = 29, buffer = [11, 12]\<rparr>,
        dicts = [[]]\<rparr>)
   \<and> accepted [] \<and> (10 :: nat) \<le> length [1, 2, 3, 4, 5, 6, 7, 8, 9, 10, 11, 12 :: byte]
   \<and> (\<exists>w2. dump (Suc 0) Utf8
         (NotImplemented \<lparr>table_map = 0, event_type = 99, timestamp = 1000, event_size = 10,
            log_pos = 200, ctl_connection = 0, processed = True, hashes = PyRef 0\<rparr>)
         \<lparr>cursor = \<lparr>p_event_type = 99, p_timestamp = 1000, p_log_pos = 200, p_flags = 0,
                    read_bytes = 29, buffer = [11, 12]\<rparr>,
          dicts = [[]]\<rparr>
       = (Inr (PyRef 0,
            NotImplemented \<lparr>table_map = 0, event_type = 99, timestamp = 1000, event_size = 10,
              log_pos = 200, ctl_connection = 0, processed = True, hashes = PyRef 0\<rparr>), w2) \<and>
       items_of (dicts w2) (PyRef 0) =
              [(''class'', PyText ''NotImplementedEvent''),
               (''timestamp'', PyInt 1000),
               (''log_pos'', PyInt 200),
               (''event_size'', PyInt 10),
               (''read_bytes'', PyInt 29),
               (''flags'', PyInt 0)])
   \<and> (\<exists>e w1. NotImplementedEvent_init 10 0 0 []
         \<lparr>cursor = \<lparr>p_event_type = 99, p_timestamp = 1000, p_log_pos = 200, p_flags = 0,
                 read_bytes = 19, buffer = [1, 2, 3, 4, 5, 6, 7, 8, 9, 10, 11, 12]\<rparr>,
           dicts = []\<rparr> = (Inr e, w1) \<and>
         buffer (cursor w1) = [11, 12] \<and> read_bytes (cursor w1) = 29)"
proof -
  let ?w = "\<lparr>cursor = \<lparr>p_event_type = 99, p_timestamp = 1000, p_log_pos = 200, p_flags = 0,
                 read_bytes = 19, buffer = [1, 2, 3, 4, 5, 6, 7, 8, 9, 10, 11, 12]\<rparr>,
       dicts = []\<rparr>"
  have run: "NotImplementedEvent_init 10 0 0 [] ?w
   = (Inr \<lparr>table_map = 0, event_type = 99, timestamp = 1000, event_size = 10, log_pos = 200,
           ctl_connection = 0, processed = True, hashes = PyRef 0\<rparr>,
      \<lparr>cursor = \<lparr>p_event_type = 99, p_timestamp = 1000, p_log_pos = 200, p_flags = 0,
                  read_bytes = 29, buffer = [11, 12]\<rparr>,
        dicts = [[]]\<rparr>)"
    by code_simp
  have acc: "accepted []" by (simp add: accepted_def)
  have len: "10 \<le> length (buffer (cursor ?w))" by simp
  note T = NotImplementedEvent_skips_event_size [of 10 0 0 "[]" ?w _ _ 0 Utf8]
  from T [THEN conjunct1, rule_format, OF run] T [THEN conjunct2, rule_format, OF conjI, OF acc len]
  show ?thesis using run acc by auto
qed

lemma new_event_base:
  assumes "new_event cls enc es tm ctl kw w = (Inr ev, w1)"
  shows "event_size (base ev) = es \<and> timestamp (base ev) = p_timestamp (cursor w) \<and>
         p_timestamp (cursor w1) = p_timestamp (cursor w) \<and> class_of ev = cls"
  using assms
proof (cases rule: new_event_cases)
  case (Gtid e) then show ?thesis using Gtid_init_Inr [OF Gtid(3)] by simp
next
  case (Rotate e) then show ?thesis using Rotate_init_Inr [OF Rotate(3)] by simp
next
  case (FormatDescription e)
  then show ?thesis using BinLogEvent_init_Inr [OF FormatDescription(3)] by simp
next
  case (Stop e) then show ?thesis using BinLogEvent_init_Inr [OF Stop(3)] by simp
next
  case (Xid e) then show ?thesis using Xid_init_Inr [OF Xid(3)] by simp
next
  case (Query e) then show ?thesis using Query_init_Inr [OF Query(3)] by simp
next
  case (NotImplemented e)
  then show ?thesis using NotImplemented_init_Inr [OF NotImplemented(3)] by simp
qed

text \<open>
  C8.  The dump of a decoded \<^verbatim>\<open>RotateEvent\<close> is the class's private dictionary with
  exactly the entries \<open>class\<close>, \<open>position\<close>, \<open>next_binlog\<close> and \<open>timestamp\<close>; it has no
  \<open>read_bytes\<close>, \<open>flags\<close>, \<open>log_pos\<close> or \<open>event_size\<close>.  The dump of a decoded event of any
  other class has all four of these keys.
\<close>

theorem RotateEvent_dump_shape:
  "(RotateEvent_init enc esize tmap ctl kwargs w = (Inr e, w1) \<longrightarrow>
      (\<exists>w2. dump depth enc (Rotate e) w1 = (Inr (rotate_hashes e, Rotate e), w2) \<and>
         items_of (dicts w2) (rotate_hashes e) =
           [(''class'', PyText ''RotateEvent''), (''position'', PyInt (position e)),
            (''next_binlog'', PyText (next_binlog e)), (''timestamp'', PyInt (timestamp e))] \<and>
         map_of (items_of (dicts w2) (rotate_hashes e)) ''read_bytes'' = None \<and>
         map_of (items_of (dicts w2) (rotate_hashes e)) ''flags'' = None \<and>
         map_of (items_of (dicts w2) (rotate_hashes e)) ''log_pos'' = None \<and>
         map_of (items_of (dicts w2) (rotate_hashes e)) ''event_size'' = None))
   \<and> (new_event cls enc esize tmap ctl kwargs w = (Inr ev, w1) \<and> cls \<noteq> RotateEvent \<and>
        dump depth enc ev w1 = (Inr (r, ev'), w2) \<longrightarrow>
        map_of (items_of (dicts w2) r) ''read_bytes'' = Some (PyInt (read_bytes (cursor w1))) \<and>
        map_of (items_of (dicts w2) r) ''flags'' = Some (PyInt (p_flags (cursor w1))) \<and>
        map_of (items_of (dicts w2) r) ''log_pos'' = Some (PyInt (p_log_pos (cursor w1))) \<and>
        map_of (items_of (dicts w2) r) ''event_size'' = Some (PyInt esize))"
proof (intro conjI impI)
  assume run: "RotateEvent_init enc esize tmap ctl kwargs w = (Inr e, w1)"
  from Rotate_init_Inr [OF run]
  have f: "rotate_hashes e = PyRef (Suc (length (dicts w)))" by simp
  show "\<exists>w2. dump depth enc (Rotate e) w1 = (Inr (rotate_hashes e, Rotate e), w2) \<and>
         items_of (dicts w2) (rotate_hashes e) =
           [(''class'', PyText ''RotateEvent''), (''position'', PyInt (position e)),
            (''next_binlog'', PyText (next_binlog e)), (''timestamp'', PyInt (timestamp e))] \<and>
         map_of (items_of (dicts w2) (rotate_hashes e)) ''read_bytes'' = None \<and>
         map_of (items_of (dicts w2) (rotate_hashes e)) ''flags'' = None \<and>
         map_of (items_of (dicts w2) (rotate_hashes e)) ''log_pos'' = None \<and>
         map_of (items_of (dicts w2) (rotate_hashes e)) ''event_size'' = None"
    by (rule exI, rule conjI, rule dump_new_Rotate(1) [OF run])
       (simp add: f items_of_def nth_append)
next
  assume a: "new_event cls enc esize tmap ctl kwargs w = (Inr ev, w1) \<and> cls \<noteq> RotateEvent \<and>
        dump depth enc ev w1 = (Inr (r, ev'), w2)"
  then have new: "new_event cls enc esize tmap ctl kwargs w = (Inr ev, w1)"
    and nr: "cls \<noteq> RotateEvent" and d: "dump depth enc ev w1 = (Inr (r, ev'), w2)"
    by simp_all
  from dump_new_event [OF new d nr]
  have r: "r = PyRef (length (dicts w))" "length (dicts w) < length (dicts w2)"
    and c: "dicts w2 ! length (dicts w) = envelope cls (base ev) w1 @ variant_fields enc ev"
    by blast+
  have es: "event_size (base ev) = esize"
    using new_event_base [OF new] by simp
  show "map_of (items_of (dicts w2) r) ''read_bytes'' = Some (PyInt (read_bytes (cursor w1)))"
    "map_of (items_of (dicts w2) r) ''flags'' = Some (PyInt (p_flags (cursor w1)))"
    "map_of (items_of (dicts w2) r) ''log_pos'' = Some (PyInt (p_log_pos (cursor w1)))"
    "map_of (items_of (dicts w2) r) ''event_size'' = Some (PyInt esize)"
    by (simp_all add: r c items_of_def envelope_def es)
qed

lemma sample_rotate_run:
  "new_event RotateEvent Utf8 24 0 0 [] sample_rotate_world
     = (Inr (Rotate sample_rotate_event), sample_rotate_decoded)"
  by code_simp

lemma sample_xid_run:
  "new_event XidEvent Utf8 8 0 0 [(''only_schemas'', 5)] sample_xid_world
     = (Inr (Xid sample_xid_event), sample_xid_decoded)"
  by code_simp

lemma sample_xid_dump:
  "dump 1 Utf8 (Xid sample_xid_event) sample_xid_decoded
     = (Inr (PyRef 0, Xid sample_xid_event), sample_xid_dumped)"
  by code_simp

theorem RotateEvent_dump_shape_witness:
  "RotateEvent_init Utf8 24 0 0 [] sample_rotate_world
     = (Inr sample_rotate_event, sample_rotate_decoded)
   \<and> (\<exists>w2. dump 1 Utf8 (Rotate sample_rotate_event) sample_rotate_decoded
              = (Inr (PyRef 1, Rotate sample_rotate_event), w2) \<and>
            items_of (dicts w2) (PyRef 1) =
              [(''class'', PyText ''RotateEvent''), (''position'', PyInt 4),
               (''next_binlog'', PyText ''mysql-bin.000002''), (''timestamp'', PyInt 1000)] \<and>
            map_of (items_of (dicts w2) (PyRef 1)) ''read_bytes'' = None \<and>
            map_of (items_of (dicts w2) (PyRef 1)) ''flags'' = None)
   \<and> new_event XidEvent Utf8 8 0 0 [(''only_schemas'', 5)] sample_xid_world
       = (Inr (Xid sample_xid_event), sample_xid_decoded)
   \<and> XidEvent \<noteq> RotateEvent
   \<and> dump 1 Utf8 (Xid sample_xid_event) sample_xid_decoded
       = (Inr (PyRef 0, Xid sample_xid_event), sample_xid_dumped)
   \<and> map_of (items_of (dicts sample_xid_dumped) (PyRef 0)) ''read_bytes'' = Some (PyInt 27)
   \<and> map_of (items_of (dicts sample_xid_dumped) (PyRef 0)) ''flags'' = Some (PyInt 0)"
proof -
  have r: "RotateEvent_init Utf8 24 0 0 [] sample_rotate_world
             = (Inr sample_rotate_event, sample_rotate_decoded)"
    by code_simp
  have ne: "XidEvent \<noteq> RotateEvent" by simp
  note T1 = RotateEvent_dump_shape
    [where enc = Utf8 and esize = 24 and tmap = 0 and ctl = 0 and kwargs = "[]"
       and w = sample_rotate_world and e = sample_rotate_event and ?w1.0 = sample_rotate_decoded
       and depth = 1, THEN conjunct1, rule_format, OF r]
  note T2 = RotateEvent_dump_shape
    [where cls = XidEvent and enc = Utf8 and esize = 8 and tmap = 0 and ctl = 0
       and kwargs = "[(''only_schemas'', 5)]" and w = sample_xid_world
       and ev = "Xid sample_xid_event" and ?w1.0 = sample_xid_decoded and depth = 1
       and r = "PyRef 0" and ev' = "Xid sample_xid_event" and ?w2.0 = sample_xid_dumped,
     THEN conjunct2, rule_format, OF conjI [OF sample_xid_run conjI [OF ne sample_xid_dump]]]
  from T1 T2 show ?thesis using r sample_xid_run sample_xid_dump by auto
qed

text \<open>
  C4 (as amended).  For every decoded event of a class other than \<^verbatim>\<open>RotateEvent\<close>, a
  dump that returns gives \<^verbatim>\<open>self.hashes\<close>, whose entries are the class name, \<open>timestamp\<close>,
  \<open>log_pos\<close>, \<open>event_size\<close>, \<open>read_bytes\<close> and \<open>flags\<close>, followed by the entries the class's
  own \<^verbatim>\<open>_dump\<close> produced in its private dictionary (none for a class without one).
\<close>

theorem dump_envelope_then_variant_fields:
  assumes "new_event cls enc esize tmap ctl kwargs w = (Inr ev, w1)"
    and "cls \<noteq> RotateEvent"
    and "dump depth enc ev w1 = (Inr (r, ev'), w2)"
  shows "r = hashes (base ev) \<and>
         items_of (dicts w2) r =
           [(''class'', PyText (class_name cls)),
            (''timestamp'', PyInt (p_timestamp (cursor w))),
            (''log_pos'', PyInt (p_log_pos (cursor w1))),
            (''event_size'', PyInt esize),
            (''read_bytes'', PyInt (read_bytes (cursor w1))),
            (''flags'', PyInt (p_flags (cursor w1)))] @ variant_fields enc ev \<and>
         (case own_hashes ev of
            None \<Rightarrow> variant_fields enc ev = []
          | Some h \<Rightarrow> items_of (dicts w2) h = variant_fields enc ev)"
proof -
  from dump_new_event [OF assms(1,3,2)]
  have r: "r = hashes (base ev)" "r = PyRef (length (dicts w))"
    and c: "dicts w2 ! length (dicts w) = envelope cls (base ev) w1 @ variant_fields enc ev"
    and o: "\<forall>h. own_hashes ev = Some h \<longrightarrow> items_of (dicts w2) h = variant_fields enc ev"
    by blast+
  from new_event_base [OF assms(1)]
  have b: "event_size (base ev) = esize" "timestamp (base ev) = p_timestamp (cursor w)"
    "class_of ev = cls"
    by simp_all
  have "variant_fields enc ev = []" if "own_hashes ev = None"
    using that by (cases ev) simp_all
  with o have "case own_hashes ev of
            None \<Rightarrow> variant_fields enc ev = []
          | Some h \<Rightarrow> items_of (dicts w2) h = variant_fields enc ev"
    by (simp split: option.splits)
  moreover have "items_of (dicts w2) r =
           [(''class'', PyText (class_name cls)),
            (''timestamp'', PyInt (p_timestamp (cursor w))),
            (''log_pos'', PyInt (p_log_pos (cursor w1))),
            (''event_size'', PyInt esize),
            (''read_bytes'', PyInt (read_bytes (cursor w1))),
            (''flags'', PyInt (p_flags (cursor w1)))] @ variant_fields enc ev"
    by (simp add: r(2) c items_of_def envelope_def b del: class_name.simps)
  ultimately show ?thesis using r(1) by simp
qed

theorem dump_envelope_then_variant_fields_witness:
  "new_event XidEvent Utf8 8 0 0 [(''only_schemas'', 5)] sample_xid_world
     = (Inr (Xid sample_xid_event), sample_xid_decoded)
   \<and> XidEvent \<noteq> RotateEvent
   \<and> dump 1 Utf8 (Xid sample_xid_event) sample_xid_decoded
       = (Inr (PyRef 0, Xid sample_xid_event), sample_xid_dumped)
   \<and> items_of (dicts sample_xid_dumped) (PyRef 0) =
           [(''class'', PyText ''XidEvent''),
            (''timestamp'', PyInt 1000),
            (''log_pos'', PyInt 200),
            (''event_size'', PyInt 8),
            (''read_bytes'', PyInt 27),
            (''flags'', PyInt 0)] @ [(''xid'', PyInt 42)]
   \<and> items_of (dicts sample_xid_dumped) (PyRef 1) = [(''xid'', PyInt 42)]"
proof -
  have ne: "XidEvent \<noteq> RotateEvent" by simp
  from dump_envelope_then_variant_fields [OF sample_xid_run ne sample_xid_dump]
  show ?thesis using sample_xid_run sample_xid_dump by simp
qed

text \<open>
  C4 (as stated) fails for \<^verbatim>\<open>RotateEvent\<close>, whose \<^verbatim>\<open>dump\<close> overrides the base method:
  the dump of the decoded event below has no \<open>log_pos\<close>, \<open>event_size\<close>, \<open>read_bytes\<close> or
  \<open>flags\<close>.
\<close>

theorem dump_envelope_counterexample:
  "new_event RotateEvent Utf8 24 0 0 [] sample_rotate_world
     = (Inr (Rotate sample_rotate_event), sample_rotate_decoded)
   \<and> dump 1 Utf8 (Rotate sample_rotate_event) sample_rotate_decoded
       = (Inr (PyRef 1, Rotate sample_rotate_event), sample_rotate_dumped)
   \<and> map_of (items_of (dicts sample_rotate_dumped) (PyRef 1)) ''log_pos'' = None
   \<and> map_of (items_of (dicts sample_rotate_dumped) (PyRef 1)) ''event_size'' = None
   \<and> map_of (items_of (dicts sample_rotate_dumped) (PyRef 1)) ''read_bytes'' = None
   \<and> map_of (items_of (dicts sample_rotate_dumped) (PyRef 1)) ''flags'' = None"
  by code_simp

text \<open>
  C6.  Dumping a decoded event a second time returns the same mapping object with the same
  entries: the second call returns the reference the first returned and leaves every
  dictionary as the first call left it.  Neither call changes the event or the cursor.
\<close>

theorem dump_twice_identical:
  assumes "new_event cls enc esize tmap ctl kwargs w = (Inr ev, w1)"
    and "dump depth enc ev w1 = (Inr (r, ev'), w2)"
  shows "dump depth enc ev' w2 = (Inr (r, ev'), w2) \<and> ev' = ev \<and> cursor w2 = cursor w1"
proof (cases "cls = RotateEvent")
  case True
  with assms(1) obtain e where e: "ev = Rotate e"
    and run: "RotateEvent_init enc esize tmap ctl kwargs w = (Inr e, w1)"
    by (cases rule: new_event_cases) simp_all
  from assms(2) dump_new_Rotate [OF run, of depth enc] show ?thesis
    by (auto simp add: e simp del: dump.simps)
next
  case False
  from dump_new_event [OF assms False] show ?thesis by simp
qed

theorem dump_twice_identical_witness:
  "new_event XidEvent Utf8 8 0 0 [(''only_schemas'', 5)] sample_xid_world
     = (Inr (Xid sample_xid_event), sample_xid_decoded)
   \<and> dump 1 Utf8 (Xid sample_xid_event) sample_xid_decoded
       = (Inr (PyRef 0, Xid sample_xid_event), sample_xid_dumped)
   \<and> dump 1 Utf8 (Xid sample_xid_event) sample_xid_dumped
       = (Inr (PyRef 0, Xid sample_xid_event), sample_xid_dumped)"
  using dump_twice_identical [OF sample_xid_run sample_xid_dump] sample_xid_run sample_xid_dump
  by simp

section \<open>Values of a dump\<close>

lemma ascii_valid_utf8: "list_all (\<lambda>b. b \<le> 0x7F) bs \<Longrightarrow> valid_utf8 bs"
  by (induction bs) simp_all

lemma char_byte_byte_char: "char_byte (byte_char b) = b"
proof -
  have "unat b < 256" using unsigned_less [of b] by simp
  then have "unat b mod 256 = unat b" by simp
  have "(of_char (char_of (unat b)) :: byte) = of_nat (of_char (char_of (unat b)))"
    by (simp only: of_nat_of_char)
  also have "\<dots> = of_nat (unat b mod 256)" by (simp only: of_char_of)
  also have "\<dots> = b" using \<open>unat b mod 256 = unat b\<close> by simp
  finally show ?thesis by (simp add: char_byte_def byte_char_def)
qed

lemma decode_valid_utf8:
  assumes "decode enc bs = Inr t"
  shows "valid_utf8 (map char_byte t)"
proof -
  from assms have t: "t = map byte_char bs"
    by (auto simp: decode_def split: codec.splits if_splits)
  have "map char_byte (map byte_char bs) = bs"
    by (simp add: char_byte_byte_char cong: map_cong)
  with assms t show ?thesis
    by (auto simp: decode_def ascii_valid_utf8 split: codec.splits if_splits)
qed

lemma class_name_scalar: "scalar (PyText (class_name cls))"
  by (cases cls) (simp_all add: scalar_def char_byte_def)

lemma scalar_PyInt: "0 \<le> i \<Longrightarrow> i < 2 ^ 64 \<Longrightarrow> scalar (PyInt i)"
  by (simp add: scalar_def)

lemma scalar_PyInt32: "0 \<le> i \<Longrightarrow> i < 2 ^ 32 \<Longrightarrow> scalar (PyInt i)"
  by (simp add: scalar_def)

lemma scalar_PyInt16: "0 \<le> i \<Longrightarrow> i < 2 ^ 16 \<Longrightarrow> scalar (PyInt i)"
  by (simp add: scalar_def)

lemma envelope_scalar:
  assumes "envelope_in_range (cursor w1) (event_size e)"
    and "timestamp e = p_timestamp (cursor w1)"
  shows "list_all (\<lambda>kv. scalar (snd kv)) (envelope cls e w1)"
  using assms class_name_scalar [of cls]
  by (simp add: envelope_def envelope_in_range_def scalar_PyInt scalar_PyInt32 scalar_PyInt16
      del: class_name.simps)

lemma variant_fields_scalar:
  assumes "new_event cls enc es tm ctl kw w = (Inr ev, w1)"
    and "dump depth enc ev w1 = (Inr (r, ev'), w2)"
  shows "list_all (\<lambda>kv. scalar (snd kv)) (variant_fields enc ev)"
  using assms(1)
proof (cases rule: new_event_cases)
  case (Gtid e)
  then show ?thesis by (simp add: gtid_raises scalar_def)
next
  case (Xid e)
  from Xid_init_Inr [OF Xid(3)] show ?thesis by (simp add: Xid scalar_def)
next
  case (Query e)
  from Query_init_Inr [OF Query(3)]
  have f: "hashes e = PyRef (length (dicts w))" "dicts w1 = dicts w @ [[], []]"
    "0 \<le> execution_time e" "execution_time e < 2 ^ 32"
    and q: "\<exists>bs. decode Utf8 bs = Inr (query e)"
    by simp_all
  from q have vq: "valid_utf8 (map char_byte (query e))" by (auto dest: decode_valid_utf8)
  obtain st where st: "decode enc (schema e) = Inr st"
  proof (cases "decode enc (schema e)")
    case (Inl err)
    have "fst (dump depth enc (Query e) w1) = Inl err"
      by (rule dump_Query_undecodable [OF f(1) _ Inl]) (simp add: f(2))
    with assms(2) Query(2) show ?thesis by simp
  next
    case (Inr st)
    then show ?thesis by (rule that)
  qed
  from decode_valid_utf8 [OF st] vq f(3,4) show ?thesis
    by (simp add: Query st scalar_def)
qed simp_all

text \<open>
  C5.  When the envelope numbers have the types of the specification's data model, every
  value in the dump of a decoded event is an unsigned 64-bit integer, a boolean or
  well-formed UTF-8 text; no value is a byte sequence (nor, for the classes of this
  module, a nested mapping).
\<close>

theorem dump_values_are_scalars:
  assumes "new_event cls enc esize tmap ctl kwargs w = (Inr ev, w1)"
    and "dump depth enc ev w1 = (Inr (r, ev'), w2)"
    and "envelope_in_range (cursor w1) esize"
  shows "is_dict (dicts w2) r \<and> list_all (\<lambda>kv. scalar (snd kv)) (items_of (dicts w2) r)"
proof (cases "cls = RotateEvent")
  case True
  with assms(1) obtain e where e: "ev = Rotate e"
    and run: "RotateEvent_init enc esize tmap ctl kwargs w = (Inr e, w1)"
    by (cases rule: new_event_cases) simp_all
  from Rotate_init_Inr [OF run]
  have f: "rotate_hashes e = PyRef (Suc (length (dicts w)))" "0 \<le> position e"
    "position e < 2 ^ 64" "timestamp e = p_timestamp (cursor w1)"
    and n: "\<exists>bs. decode enc bs = Inr (next_binlog e)"
    by simp_all
  from n have vn: "valid_utf8 (map char_byte (next_binlog e))" by (auto dest: decode_valid_utf8)
  from assms(2) dump_new_Rotate(1) [OF run, of depth enc]
  have r: "r = PyRef (Suc (length (dicts w)))"
    and w2: "dicts w2 = dicts w @ [[],
              [(''class'', PyText ''RotateEvent''), (''position'', PyInt (position e)),
               (''next_binlog'', PyText (next_binlog e)), (''timestamp'', PyInt (timestamp e))]]"
    by (auto simp add: e f(1) simp del: dump.simps)
  from assms(3) have "scalar (PyInt (timestamp e))"
    by (simp add: f(4) envelope_in_range_def scalar_def)
  with vn f(2,3) class_name_scalar [of RotateEvent] show ?thesis
    by (simp add: r w2 is_dict_def items_of_def nth_append scalar_PyInt)
       (simp add: scalar_def)
next
  case False
  from dump_new_event [OF assms(1,2) False]
  have r: "r = PyRef (length (dicts w))" "length (dicts w) < length (dicts w2)"
    and c: "dicts w2 ! length (dicts w) = envelope cls (base ev) w1 @ variant_fields enc ev"
    by blast+
  from new_event_base [OF assms(1)]
  have b: "event_size (base ev) = esize" "timestamp (base ev) = p_timestamp (cursor w1)"
    by simp_all
  have "list_all (\<lambda>kv. scalar (snd kv)) (envelope cls (base ev) w1)"
    by (rule envelope_scalar) (simp_all add: b assms(3))
  with variant_fields_scalar [OF assms(1,2)] show ?thesis
    by (simp add: r c is_dict_def items_of_def)
qed

lemma sample_query_run:
  "new_event QueryEvent Utf8 30 0 0 [(''only_schemas'', 5)] sample_query_world
     = (Inr (Query sample_query_event), sample_query_decoded)"
  by code_simp

lemma sample_query_dump:
  "dump 1 Utf8 (Query sample_query_event) sample_query_decoded
     = (Inr (PyRef 0, Query sample_query_event), sample_query_dumped)"
  by code_simp

theorem dump_values_are_scalars_witness:
  "new_event QueryEvent Utf8 30 0 0 [(''only_schemas'', 5)] sample_query_world
     = (Inr (Query sample_query_event), sample_query_decoded)
   \<and> dump 1 Utf8 (Query sample_query_event) sample_query_decoded
       = (Inr (PyRef 0, Query sample_query_event), sample_query_dumped)
   \<and> envelope_in_range (cursor sample_query_decoded) 30
   \<and> is_dict (dicts sample_query_dumped) (PyRef 0)
   \<and> list_all (\<lambda>kv. scalar (snd kv)) (items_of (dicts sample_query_dumped) (PyRef 0))"
proof -
  have e: "envelope_in_range (cursor sample_query_decoded) 30"
    by (simp add: envelope_in_range_def)
  from dump_values_are_scalars [OF sample_query_run sample_query_dump e]
  show ?thesis using sample_query_run sample_query_dump e by simp
qed

section \<open>\<^verbatim>\<open>iter_bytes_to_string\<close> on nested dictionaries\<close>















lemma items_of_ref [simp]: "items_of s (PyRef a) = s ! a"
  by (simp add: items_of_def)


lemma is_dict_ref [simp]: "is_dict s (PyRef a) = (a < length s)"
  by (simp add: is_dict_def)
















end
